theory Spec2Isabelle
  imports Main "HOL-Library.Sublist"
begin

section \<open>Go string primitives used by the services\<close>

text \<open>
  A Go \<open>string\<close> is a sequence of bytes; it is modelled as \<open>string\<close> (a list of 8-bit
  characters).

  \<open>strings.ReplaceAll(s, old, new)\<close> replaces the non-overlapping occurrences of \<open>old\<close>
  in \<open>s\<close>, found from left to right. For an empty \<open>old\<close> Go inserts \<open>new\<close> before every
  rune and at the end (every byte here; the services never pass an empty \<open>old\<close>).
  \<open>strings.HasPrefix(s, p)\<close> is \<open>prefix p s\<close>.
\<close>

fun ReplaceAll :: "string \<Rightarrow> string \<Rightarrow> string \<Rightarrow> string" where
  "ReplaceAll s [] new = new @ concat (map (\<lambda>c. c # new) s)"
| "ReplaceAll [] (a # old) new = []"
| "ReplaceAll (c # cs) (a # old) new =
     (if prefix (a # old) (c # cs)
      then new @ ReplaceAll (drop (length old) cs) (a # old) new
      else c # ReplaceAll cs (a # old) new)"

definition HasPrefix :: "string \<Rightarrow> string \<Rightarrow> bool" where
  "HasPrefix s p = prefix p s"

section \<open>Template rendering\<close>

text \<open>
  \<open>params\<close> is a Go \<open>map[string]string\<close>. A \<open>range\<close> over a Go map visits every entry
  once, in an order that the runtime randomises. The map is modelled by the list of its
  entries in the order in which the \<open>range\<close> statement visits them (keys pairwise
  distinct); a statement about the code quantifies over that list.
\<close>

type_synonym params = "(string \<times> string) list"

text \<open>The placeholder built in the loop body: \<open>"{" + key + "}"\<close>.\<close>

definition placeholder :: "string \<Rightarrow> string" where
  "placeholder key = ''{'' @ key @ ''}''"

text \<open>The loop \<open>for key, value := range params { result = ReplaceAll(result, ...) }\<close>.\<close>

fun range_replace :: "string \<Rightarrow> params \<Rightarrow> string" where
  "range_replace result [] = result"
| "range_replace result ((key, value) # rest) =
     range_replace (ReplaceAll result (placeholder key) value) rest"

text \<open>\<open>utils.RenderTemplate\<close> of the chat service and of the email service (same text).\<close>

definition RenderTemplate :: "string \<Rightarrow> params \<Rightarrow> string" where
  "RenderTemplate template ps = (if template = [] then [] else range_replace template ps)"

text \<open>\<open>renderTemplate\<close> of the SMS service: the same loop without the empty check.\<close>

definition renderTemplate :: "string \<Rightarrow> params \<Rightarrow> string" where
  "renderTemplate template ps = range_replace template ps"

section \<open>Errors\<close>

text \<open>
  The sentinel errors of the \<open>models\<close> packages that the modelled code returns, an error
  coming from a collaborator (carried with its message), and \<open>fmt.Errorf(prefix + ": %w", err)\<close>.
\<close>

datatype error =
    ErrInvalidNotificationID
  | ErrInvalidRecipient
  | ErrMissingContent
  | ErrInvalidTemplate
  | ErrInvalidPhoneNumber
  | ErrInvalidSubject
  | ErrInvalidEmailFormat
  | ErrExternal string
  | Errorf string error

text \<open>\<open>err.Error()\<close> with the messages of \<open>whatsapp-service/internal/models/errors.go\<close>.\<close>

fun Error_chat :: "error \<Rightarrow> string" where
  "Error_chat ErrInvalidNotificationID = ''invalid notification ID''"
| "Error_chat ErrInvalidRecipient = ''invalid recipient''"
| "Error_chat ErrMissingContent = ''missing message content''"
| "Error_chat ErrInvalidTemplate = ''invalid template''"
| "Error_chat ErrInvalidPhoneNumber = ''invalid phone number''"
| "Error_chat ErrInvalidSubject = ''invalid email subject''"
| "Error_chat ErrInvalidEmailFormat = ''invalid email format''"
| "Error_chat (ErrExternal m) = m"
| "Error_chat (Errorf pre e) = pre @ '': '' @ Error_chat e"

text \<open>\<open>err.Error()\<close> with the messages of \<open>email-service/internal/models/errors.go\<close>.\<close>

fun Error_email :: "error \<Rightarrow> string" where
  "Error_email ErrInvalidNotificationID = ''invalid notification ID''"
| "Error_email ErrInvalidRecipient = ''invalid recipient email address''"
| "Error_email ErrMissingContent = ''missing email content''"
| "Error_email ErrInvalidTemplate = ''invalid template''"
| "Error_email ErrInvalidPhoneNumber = ''invalid phone number''"
| "Error_email ErrInvalidSubject = ''invalid email subject''"
| "Error_email ErrInvalidEmailFormat = ''invalid email format''"
| "Error_email (ErrExternal m) = m"
| "Error_email (Errorf pre e) = pre @ '': '' @ Error_email e"

section \<open>Phone numbers\<close>

definition is_digit :: "char \<Rightarrow> bool" where
  "is_digit c = (c \<in> set ''0123456789'')"

definition is_nonzero_digit :: "char \<Rightarrow> bool" where
  "is_nonzero_digit c = (c \<in> set ''123456789'')"

text \<open>
  \<open>phoneNumberRegex.MatchString\<close> for the pattern \<^verbatim>\<open>^\+[1-9]\d{1,14}$\<close>: in Go's regexp
  syntax \<^verbatim>\<open>\d\<close> is an ASCII digit and, without flags, \<^verbatim>\<open>^\<close> and \<^verbatim>\<open>$\<close> match only at
  the two ends of the text.
\<close>

fun phoneNumberRegex :: "string \<Rightarrow> bool" where
  "phoneNumberRegex (p # d # ds) =
     (p = CHR ''+'' \<and> is_nonzero_digit d \<and> 1 \<le> length ds \<and> length ds \<le> 14 \<and> list_all is_digit ds)"
| "phoneNumberRegex _ = False"

text \<open>
  The local variable \<open>cleaned\<close> of \<open>utils.CleanPhoneNumber\<close> (chat service) just before the
  format check: five \<open>ReplaceAll\<close> calls, then the \<open>HasPrefix\<close> test.
\<close>

definition cleaned_chat :: "string \<Rightarrow> string" where
  "cleaned_chat phone =
     (let cleaned = ReplaceAll phone '' '' '''';
          cleaned = ReplaceAll cleaned ''-'' '''';
          cleaned = ReplaceAll cleaned ''('' '''';
          cleaned = ReplaceAll cleaned '')'' '''';
          cleaned = ReplaceAll cleaned ''.'' ''''
      in if \<not> HasPrefix cleaned ''+'' then ''+'' @ cleaned else cleaned)"

definition CleanPhoneNumber :: "string \<Rightarrow> error + string" where
  "CleanPhoneNumber phone =
     (if phone = [] then Inl ErrInvalidPhoneNumber
      else if \<not> phoneNumberRegex (cleaned_chat phone) then Inl ErrInvalidPhoneNumber
      else Inr (cleaned_chat phone))"

text \<open>\<open>cleanPhoneNumber\<close> of the SMS service: four \<open>ReplaceAll\<close> calls and no format check.\<close>

definition cleanPhoneNumber :: "string \<Rightarrow> string" where
  "cleanPhoneNumber phone =
     (let cleaned = ReplaceAll phone '' '' '''';
          cleaned = ReplaceAll cleaned ''-'' '''';
          cleaned = ReplaceAll cleaned ''('' '''';
          cleaned = ReplaceAll cleaned '')'' ''''
      in if \<not> HasPrefix cleaned ''+'' then ''+'' @ cleaned else cleaned)"

section \<open>Data model\<close>

text \<open>
  A value of Go's \<open>interface{}\<close> as \<open>encoding/json\<close> produces it. JSON numbers decode to
  \<open>float64\<close>; no modelled function reads one, and they are kept as integers here.
\<close>

datatype iface =
    INil
  | IBool bool
  | INumber int
  | IString string
  | IArray "iface list"
  | IMap "(string \<times> iface) list"

text \<open>
  \<open>NotificationPayload\<close> of the email service and of the SMS service (the same nine fields);
  the chat service's struct extends it with three optional fields. \<open>Priority\<close>,
  \<open>MediaType\<close> and \<open>Status\<close> are Go string types with named constants.
\<close>

record NotificationPayload =
  NotificationID :: string
  MessageType :: string
  To :: string
  TemplateBody :: string
  Params :: params
  ChannelConfig :: "(string \<times> iface) list"
  FallbackChannels :: "(string \<times> iface) list list"
  Priority :: string
  Locale :: string

record ChatPayload = NotificationPayload +
  MediaURL :: string
  MediaType :: string
  TemplateName :: string

abbreviation PriorityLow :: string where "PriorityLow \<equiv> ''low''"
abbreviation PriorityMedium :: string where "PriorityMedium \<equiv> ''medium''"
abbreviation PriorityHigh :: string where "PriorityHigh \<equiv> ''high''"
abbreviation PriorityUrgent :: string where "PriorityUrgent \<equiv> ''urgent''"

abbreviation StatusSuccess :: string where "StatusSuccess \<equiv> ''SUCCESS''"
abbreviation StatusFailure :: string where "StatusFailure \<equiv> ''FAILURE''"
abbreviation StatusPending :: string where "StatusPending \<equiv> ''PENDING''"

abbreviation MediaTypeImage :: string where "MediaTypeImage \<equiv> ''image''"
abbreviation MediaTypeDocument :: string where "MediaTypeDocument \<equiv> ''document''"
abbreviation MediaTypeAudio :: string where "MediaTypeAudio \<equiv> ''audio''"
abbreviation MediaTypeVideo :: string where "MediaTypeVideo \<equiv> ''video''"

text \<open>\<open>AckPayload\<close>; the timestamp is the reading of the clock when the record is built.\<close>

record AckPayload =
  ack_NotificationID :: string
  ack_Status :: string
  ack_Details :: string
  ack_Timestamp :: nat

text \<open>\<open>models.EmailMessage\<close>; \<open>Headers\<close> is a Go map that is only written and looked up.\<close>

record EmailMessage =
  em_To :: string
  em_Subject :: string
  em_Body :: string
  em_Headers :: "string \<rightharpoonup> string"

text \<open>The chat message structs of \<open>models\<close> (pointer fields as options).\<close>

record TextMessage =
  PreviewURL :: bool
  txt_Body :: string

record MediaMessage =
  med_ID :: string
  Link :: string
  Caption :: string
  Filename :: string

record TemplateParameter =
  par_Type :: string
  par_Text :: string
  par_Image :: "MediaMessage option"

record TemplateComponent =
  cmp_Type :: string
  Parameters :: "TemplateParameter list"

record TemplateMessage =
  tpl_Name :: string
  LanguageCode :: string
  Components :: "TemplateComponent list"

record WhatsAppMessage =
  MessagingProduct :: string
  RecipientType :: string
  wa_To :: string
  wa_Type :: string
  wa_Text :: "TextMessage option"
  wa_Image :: "MediaMessage option"
  wa_Document :: "MediaMessage option"
  wa_Audio :: "MediaMessage option"
  wa_Video :: "MediaMessage option"
  wa_Template :: "TemplateMessage option"

section \<open>Chat service: validation and message composition\<close>

text \<open>\<open>NotificationPayload.IsValid\<close> of the chat service (\<open>nil\<close> is \<open>None\<close>).\<close>

definition IsValid_chat :: "ChatPayload \<Rightarrow> error option" where
  "IsValid_chat n =
     (if NotificationID n = [] then Some ErrInvalidNotificationID
      else if To n = [] then Some ErrInvalidRecipient
      else if TemplateBody n = [] \<and> TemplateName n = [] then Some ErrMissingContent
      else None)"

text \<open>\<open>utils.GetLanguageCode\<close>: \<open>strings.Split(locale, "_")[0]\<close> is the text before the first underscore.\<close>

definition GetLanguageCode :: "string \<Rightarrow> string" where
  "GetLanguageCode locale =
     (if locale = [] then ''en''
      else if CHR ''_'' \<in> set locale then takeWhile (\<lambda>c. c \<noteq> CHR ''_'') locale
      else locale)"

definition buildTextMessage :: "string \<Rightarrow> ChatPayload \<Rightarrow> error + WhatsAppMessage" where
  "buildTextMessage to payload =
     (let body = RenderTemplate (TemplateBody payload) (Params payload)
      in if body = [] then Inl ErrMissingContent
         else Inr \<lparr>MessagingProduct = ''whatsapp'', RecipientType = ''individual'',
                    wa_To = to, wa_Type = ''text'',
                    wa_Text = Some \<lparr>PreviewURL = True, txt_Body = body\<rparr>,
                    wa_Image = None, wa_Document = None, wa_Audio = None, wa_Video = None,
                    wa_Template = None\<rparr>)"

definition buildMediaMessage :: "string \<Rightarrow> ChatPayload \<Rightarrow> error + WhatsAppMessage" where
  "buildMediaMessage to payload =
     (if MediaURL payload = [] then Inl ErrMissingContent
      else
        let message = \<lparr>MessagingProduct = ''whatsapp'', RecipientType = ''individual'',
                       wa_To = to, wa_Type = MediaType payload,
                       wa_Text = None, wa_Image = None, wa_Document = None, wa_Audio = None,
                       wa_Video = None, wa_Template = None\<rparr>;
            mediaMsg = \<lparr>med_ID = [], Link = MediaURL payload,
                        Caption = RenderTemplate (TemplateBody payload) (Params payload),
                        Filename = []\<rparr>;
            mediaMsg = (if MediaType payload = MediaTypeDocument
                        then (case map_of (Params payload) ''filename'' of
                                Some filename \<Rightarrow> mediaMsg\<lparr>Filename := filename\<rparr>
                              | None \<Rightarrow> mediaMsg)
                        else mediaMsg)
        in Inr (if MediaType payload = MediaTypeImage then message\<lparr>wa_Image := Some mediaMsg\<rparr>
                else if MediaType payload = MediaTypeDocument then message\<lparr>wa_Document := Some mediaMsg\<rparr>
                else if MediaType payload = MediaTypeAudio then message\<lparr>wa_Audio := Some mediaMsg\<rparr>
                else if MediaType payload = MediaTypeVideo then message\<lparr>wa_Video := Some mediaMsg\<rparr>
                else message\<lparr>wa_Type := ''image'', wa_Image := Some mediaMsg\<rparr>))"

definition buildTemplateMessage :: "string \<Rightarrow> ChatPayload \<Rightarrow> error + WhatsAppMessage" where
  "buildTemplateMessage to payload =
     (if TemplateName payload = [] then Inl ErrInvalidTemplate
      else Inr \<lparr>MessagingProduct = ''whatsapp'', RecipientType = ''individual'',
                 wa_To = to, wa_Type = ''template'',
                 wa_Text = None, wa_Image = None, wa_Document = None, wa_Audio = None,
                 wa_Video = None,
                 wa_Template = Some \<lparr>tpl_Name = TemplateName payload,
                    LanguageCode = GetLanguageCode (Locale payload),
                    Components =
                      (if length (Params payload) > 0
                       then [\<lparr>cmp_Type = ''body'',
                               Parameters = map (\<lambda>(key, value).
                                 \<lparr>par_Type = ''text'', par_Text = value, par_Image = None\<rparr>)
                                 (Params payload)\<rparr>]
                       else [])\<rparr>\<rparr>)"

text \<open>\<open>MessageBuilder.BuildMessage\<close>: the \<open>switch\<close> takes the first case that holds.\<close>

definition BuildMessage :: "ChatPayload \<Rightarrow> string \<Rightarrow> error + WhatsAppMessage" where
  "BuildMessage payload to =
     (if MediaURL payload \<noteq> [] then buildMediaMessage to payload
      else if TemplateName payload \<noteq> [] then buildTemplateMessage to payload
      else buildTextMessage to payload)"




section \<open>Events\<close>

text \<open>
  The services act on the world through the queue reader (fetch, commit), the channel sender
  and the acknowledgment writer. A run of a consumer loop is described by the list of these
  calls in the order in which they are made; \<open>EvProcess\<close> marks the call of the processing
  pipeline for a decoded request. A processing pipeline is given by the list of the messages
  it hands to the sender and by the error it returns.
\<close>

record KafkaMessage =
  Offset :: nat
  Value :: string

datatype ('p, 'm) event =
    EvFetch KafkaMessage
  | EvCommit KafkaMessage
  | EvProcess 'p
  | EvSend 'm
  | EvAck AckPayload

section \<open>Chat service: the processing pipeline\<close>

text \<open>
  \<open>WhatsAppClient.SendMessage\<close>. The HTTP exchange with the provider is the parameter \<open>api\<close>:
  it gives an error (marshalling, network, a status other than 200, an undecodable body) or
  the identifiers of \<open>response.Messages\<close>. \<open>SendMessage\<close> turns an empty list into an error,
  so that \<open>response.Messages[0]\<close> exists whenever it returns no error.
\<close>

definition SendMessage ::
  "(WhatsAppMessage \<Rightarrow> error + string list) \<Rightarrow> WhatsAppMessage \<Rightarrow> error + string list" where
  "SendMessage api message =
     (case api message of
        Inl err \<Rightarrow> Inl err
      | Inr ids \<Rightarrow> if length ids = 0 then Inl (ErrExternal ''no message ID in response'')
                   else Inr ids)"

definition ProcessNotification_chat ::
  "(WhatsAppMessage \<Rightarrow> error + string list) \<Rightarrow> ChatPayload
     \<Rightarrow> WhatsAppMessage list \<times> error option" where
  "ProcessNotification_chat api payload =
     (case IsValid_chat payload of
        Some err \<Rightarrow> ([], Some (Errorf ''invalid notification payload'' err))
      | None \<Rightarrow>
        (case CleanPhoneNumber (To payload) of
           Inl err \<Rightarrow> ([], Some (Errorf (''invalid phone number '' @ To payload) err))
         | Inr cleanTo \<Rightarrow>
           (case BuildMessage payload cleanTo of
              Inl err \<Rightarrow> ([], Some (Errorf ''failed to build message'' err))
            | Inr message \<Rightarrow>
              (case SendMessage api message of
                 Inl err \<Rightarrow> ([message], Some (Errorf ''failed to send WhatsApp message'' err))
               | Inr response \<Rightarrow> ([message], None)))))"

section \<open>Email service: validation and message composition\<close>

text \<open>\<open>NotificationPayload.IsValid\<close> and \<open>GetSubject\<close> of the email service.\<close>

definition IsValid_email :: "NotificationPayload \<Rightarrow> error option" where
  "IsValid_email n =
     (if NotificationID n = [] then Some ErrInvalidNotificationID
      else if To n = [] then Some ErrInvalidRecipient
      else if TemplateBody n = [] then Some ErrMissingContent
      else None)"

definition GetSubject :: "NotificationPayload \<Rightarrow> string" where
  "GetSubject n =
     (case map_of (ChannelConfig n) ''subject'' of
        Some (IString subject) \<Rightarrow> subject
      | _ \<Rightarrow> ''Notification'')"

text \<open>
  \<open>utils.RenderEmailTemplate\<close> ranges over the parameter map twice; \<open>ps\<close> and \<open>ps'\<close> are the
  entries in the order of the first and of the second loop.
\<close>

definition RenderEmailTemplate :: "string \<Rightarrow> string \<Rightarrow> params \<Rightarrow> params \<Rightarrow> string \<times> string" where
  "RenderEmailTemplate subject body ps ps' = (RenderTemplate subject ps, RenderTemplate body ps')"

definition mapPriorityToHeader :: "string \<Rightarrow> string" where
  "mapPriorityToHeader priority =
     (if priority = PriorityUrgent then ''1 (Highest)''
      else if priority = PriorityHigh then ''2 (High)''
      else if priority = PriorityMedium then ''3 (Normal)''
      else if priority = PriorityLow then ''4 (Low)''
      else ''3 (Normal)'')"

text \<open>
  The loop over \<open>channelConfig["headers"]\<close>: a string value is stored under its key, any other
  value is skipped.
\<close>

fun add_custom_headers :: "(string \<times> iface) list \<Rightarrow> (string \<rightharpoonup> string) \<Rightarrow> (string \<rightharpoonup> string)" where
  "add_custom_headers [] h = h"
| "add_custom_headers ((key, value) # rest) h =
     add_custom_headers rest (case value of IString strValue \<Rightarrow> h(key \<mapsto> strValue) | _ \<Rightarrow> h)"

definition BuildEmailMessage :: "NotificationPayload \<Rightarrow> params \<Rightarrow> error + EmailMessage" where
  "BuildEmailMessage payload ps' =
     (case IsValid_email payload of
        Some err \<Rightarrow> Inl err
      | None \<Rightarrow>
        let subject = GetSubject payload;
            (renderedSubject, renderedBody) =
               RenderEmailTemplate subject (TemplateBody payload) (Params payload) ps';
            headers = Map.empty;
            headers = (if Priority payload \<noteq> []
                       then headers(''X-Priority'' \<mapsto> mapPriorityToHeader (Priority payload))
                       else headers);
            headers = (if NotificationID payload \<noteq> []
                       then headers(''X-Notification-ID'' \<mapsto> NotificationID payload)
                       else headers);
            headers = (case map_of (ChannelConfig payload) ''headers'' of
                         Some (IMap hs) \<Rightarrow> add_custom_headers hs headers
                       | _ \<Rightarrow> headers)
        in Inr \<lparr>em_To = To payload, em_Subject = renderedSubject, em_Body = renderedBody,
                 em_Headers = headers\<rparr>)"

text \<open>
  \<open>utils.ValidateEmail\<close>. \<open>strings.TrimSpace\<close> removes leading and trailing white space (the
  ASCII white space here). \<open>emailRegex\<close> is \<^verbatim>\<open>^[a-zA-Z0-9._%+-]+@[a-zA-Z0-9.-]+\.[a-zA-Z]{2,}$\<close>:
  since neither character class contains \<^verbatim>\<open>@\<close> and the last class contains no dot, a match
  splits the text at its first \<^verbatim>\<open>@\<close> and at the last dot after it.
\<close>

definition is_space :: "char \<Rightarrow> bool" where
  "is_space c = (c \<in> set [CHR '' '', CHR 0x09, CHR 0x0A, CHR 0x0B, CHR 0x0C, CHR 0x0D])"

definition TrimSpace :: "string \<Rightarrow> string" where
  "TrimSpace s = rev (dropWhile is_space (rev (dropWhile is_space s)))"

definition is_letter :: "char \<Rightarrow> bool" where
  "is_letter c = (c \<in> set ''abcdefghijklmnopqrstuvwxyzABCDEFGHIJKLMNOPQRSTUVWXYZ'')"

definition is_local_char :: "char \<Rightarrow> bool" where
  "is_local_char c = (is_letter c \<or> is_digit c \<or> c \<in> set ''._%+-'')"

definition is_domain_char :: "char \<Rightarrow> bool" where
  "is_domain_char c = (is_letter c \<or> is_digit c \<or> c \<in> set ''.-'')"

definition emailRegex :: "string \<Rightarrow> bool" where
  "emailRegex s =
     (let local = takeWhile (\<lambda>c. c \<noteq> CHR ''@'') s;
          after = drop (Suc (length local)) s;
          tld = rev (takeWhile (\<lambda>c. c \<noteq> CHR ''.'') (rev after));
          host = take (length after - Suc (length tld)) after
      in CHR ''@'' \<in> set s \<and> local \<noteq> [] \<and> list_all is_local_char local
         \<and> CHR ''.'' \<in> set after \<and> host \<noteq> [] \<and> list_all is_domain_char host
         \<and> 2 \<le> length tld \<and> list_all is_letter tld)"

definition ValidateEmail :: "string \<Rightarrow> error option" where
  "ValidateEmail email =
     (if email = [] then Some ErrInvalidRecipient
      else if \<not> emailRegex (TrimSpace email) then Some ErrInvalidEmailFormat
      else None)"

definition ValidateEmailMessage :: "EmailMessage \<Rightarrow> error option" where
  "ValidateEmailMessage message =
     (case ValidateEmail (em_To message) of
        Some err \<Rightarrow> Some err
      | None \<Rightarrow>
        if em_Subject message = [] then Some ErrInvalidSubject
        else if em_Body message = [] then Some ErrMissingContent
        else None)"

section \<open>Email service: the processing pipeline\<close>

text \<open>
  \<open>NotificationService.ProcessNotification\<close>. \<open>EmailClient.SendEmail\<close> (the SMTP dialogue) is
  the parameter \<open>SendEmail\<close>, giving \<open>None\<close> for \<open>nil\<close>.
\<close>

definition ProcessNotification_email ::
  "(EmailMessage \<Rightarrow> error option) \<Rightarrow> params \<Rightarrow> NotificationPayload
     \<Rightarrow> EmailMessage list \<times> error option" where
  "ProcessNotification_email SendEmail ps' payload =
     (case BuildEmailMessage payload ps' of
        Inl err \<Rightarrow> ([], Some (Errorf ''failed to build email message'' err))
      | Inr message \<Rightarrow>
        (case ValidateEmailMessage message of
           Some err \<Rightarrow> ([], Some (Errorf ''invalid email message'' err))
         | None \<Rightarrow>
           (case SendEmail message of
              Some err \<Rightarrow> ([message], Some (Errorf ''failed to send email'' err))
            | None \<Rightarrow> ([message], None))))"

section \<open>SMS service: the processing pipeline\<close>

text \<open>
  \<open>sendSMS\<close> prints the recipient and the text and returns \<open>nil\<close>; the pair is the message
  sent. \<open>handleSMSPayload\<close> cleans the recipient, renders the body and sends.
\<close>

definition sendSMS :: "string \<Rightarrow> string \<Rightarrow> (string \<times> string) list \<times> error option" where
  "sendSMS to message = ([(to, message)], None)"

definition handleSMSPayload :: "NotificationPayload \<Rightarrow> (string \<times> string) list \<times> error option" where
  "handleSMSPayload payload =
     (let to = cleanPhoneNumber (To payload);
          message = renderTemplate (TemplateBody payload) (Params payload)
      in sendSMS to message)"

section \<open>Consumer loops\<close>

text \<open>
  The collaborators of a loop: \<open>json.Unmarshal\<close> on a message body (its error, and the
  payload variable as the call leaves it: on an error the fields decoded so far, or the zero
  value), the acknowledgment writer, the reader's commit, and the clock. \<open>json.Marshal\<close> of
  an acknowledgment cannot fail and is not modelled; the record written stands for its JSON.
\<close>

record 'p kafka_env =
  Unmarshal :: "string \<Rightarrow> error option \<times> 'p"
  WriteMessages :: "AckPayload \<Rightarrow> error option"
  CommitMessages :: "KafkaMessage \<Rightarrow> error option"
  Now :: nat

text \<open>
  What the reader delivers when the loop asks for the next message, and what an iteration
  that first looks at the context observes. A run of a loop is driven by a finite list of
  these; when the list is used up the loop is waiting in the reader.
\<close>

datatype fetch = FetchFailed error | Fetched KafkaMessage

datatype poll = CtxDone | Poll fetch

datatype loop_end = Stopped error | Waiting

abbreviation Canceled :: error where "Canceled \<equiv> ErrExternal ''context canceled''"

text \<open>
  The two read calls of \<open>kafka-go\<close>'s \<open>Reader\<close>, for a reader created with a \<open>GroupID\<close> (all
  three services create it so). \<open>FetchMessage\<close> returns the next message and commits
  nothing. \<open>ReadMessage\<close> is the library's \<open>FetchMessage\<close> followed by \<open>CommitMessages\<close> of the
  message it fetched, and fails when either does.
\<close>

definition FetchMessage :: "'p kafka_env \<Rightarrow> fetch \<Rightarrow> ('p, 'm) event list \<times> (error + KafkaMessage)" where
  "FetchMessage env f =
     (case f of FetchFailed err \<Rightarrow> ([], Inl err) | Fetched m \<Rightarrow> ([EvFetch m], Inr m))"

definition ReadMessage :: "'p kafka_env \<Rightarrow> fetch \<Rightarrow> ('p, 'm) event list \<times> (error + KafkaMessage)" where
  "ReadMessage env f =
     (case f of
        FetchFailed err \<Rightarrow> ([], Inl (Errorf ''fetching message'' err))
      | Fetched m \<Rightarrow>
        (case CommitMessages env m of
           Some err \<Rightarrow> ([EvFetch m, EvCommit m], Inl (Errorf ''committing message'' err))
         | None \<Rightarrow> ([EvFetch m, EvCommit m], Inr m)))"

subsection \<open>Email service: \<open>KafkaService\<close>\<close>

definition SendAck ::
  "'p kafka_env \<Rightarrow> string \<Rightarrow> string \<Rightarrow> string \<Rightarrow> ('q, 'm) event list \<times> error option" where
  "SendAck env notificationID status details =
     (let ack = \<lparr>ack_NotificationID = notificationID, ack_Status = status,
                  ack_Details = details, ack_Timestamp = Now env\<rparr>
      in ([EvAck ack], WriteMessages env ack))"

text \<open>
  \<open>KafkaService.processMessage\<close>; \<open>processor\<close> is the function the loop is started with.
\<close>

definition processMessage ::
  "NotificationPayload kafka_env
     \<Rightarrow> (NotificationPayload \<Rightarrow> 'm list \<times> error option)
     \<Rightarrow> KafkaMessage \<Rightarrow> (NotificationPayload, 'm) event list \<times> error option" where
  "processMessage env processor message =
     (case Unmarshal env (Value message) of
        (Some err, payload) \<Rightarrow>
          SendAck env (NotificationID payload) StatusFailure ''Invalid JSON payload''
      | (None, payload) \<Rightarrow>
          (case processor payload of
             (calls, Some err) \<Rightarrow>
               (let (acks, r) = SendAck env (NotificationID payload) StatusFailure (Error_email err)
                in (EvProcess payload # map EvSend calls @ acks, r))
           | (calls, None) \<Rightarrow>
               (let (acks, r) = SendAck env (NotificationID payload) StatusSuccess
                                  ''Email sent successfully''
                in (EvProcess payload # map EvSend calls @ acks, r))))"

text \<open>One pass through the \<open>default\<close> branch of \<open>StartConsumer\<close>'s \<open>select\<close>.\<close>

definition StartConsumer_iteration ::
  "NotificationPayload kafka_env
     \<Rightarrow> (NotificationPayload \<Rightarrow> 'm list \<times> error option)
     \<Rightarrow> fetch \<Rightarrow> (NotificationPayload, 'm) event list" where
  "StartConsumer_iteration env processor f =
     (case FetchMessage env f of
        (evs, Inl err) \<Rightarrow> evs
      | (evs, Inr m) \<Rightarrow> evs @ fst (processMessage env processor m) @ [EvCommit m])"

fun StartConsumer ::
  "NotificationPayload kafka_env
     \<Rightarrow> (NotificationPayload \<Rightarrow> 'm list \<times> error option)
     \<Rightarrow> poll list \<Rightarrow> (NotificationPayload, 'm) event list \<times> loop_end" where
  "StartConsumer env processor [] = ([], Waiting)"
| "StartConsumer env processor (CtxDone # script) = ([], Stopped Canceled)"
| "StartConsumer env processor (Poll f # script) =
     (let (evs, e) = StartConsumer env processor script
      in (StartConsumer_iteration env processor f @ evs, e))"

subsection \<open>Chat service: \<open>kafka.Consumer\<close>\<close>

text \<open>\<open>Consumer.Start\<close>; \<open>handler\<close> stands for \<open>handler.HandleMessage\<close>.\<close>

definition Start_iteration ::
  "ChatPayload kafka_env
     \<Rightarrow> (ChatPayload \<Rightarrow> 'm list \<times> error option)
     \<Rightarrow> fetch \<Rightarrow> (ChatPayload, 'm) event list" where
  "Start_iteration env handler f =
     (case ReadMessage env f of
        (evs, Inl err) \<Rightarrow> evs
      | (evs, Inr msg) \<Rightarrow>
        (case Unmarshal env (Value msg) of
           (Some err, payload) \<Rightarrow> evs
         | (None, payload) \<Rightarrow> evs @ EvProcess payload # map EvSend (fst (handler payload))))"

fun Start ::
  "ChatPayload kafka_env
     \<Rightarrow> (ChatPayload \<Rightarrow> 'm list \<times> error option)
     \<Rightarrow> poll list \<Rightarrow> (ChatPayload, 'm) event list \<times> loop_end" where
  "Start env handler [] = ([], Waiting)"
| "Start env handler (CtxDone # script) = ([], Stopped Canceled)"
| "Start env handler (Poll f # script) =
     (let (evs, e) = Start env handler script
      in (Start_iteration env handler f @ evs, e))"

subsection \<open>SMS service: \<open>consumeSMSTopic\<close>\<close>

text \<open>\<open>produceAck\<close>: a failed write is printed and nothing is returned.\<close>

definition produceAck ::
  "'p kafka_env \<Rightarrow> string \<Rightarrow> string \<Rightarrow> string \<Rightarrow> ('q, 'm) event list" where
  "produceAck env notificationId status details =
     [EvAck \<lparr>ack_NotificationID = notificationId, ack_Status = status,
             ack_Details = details, ack_Timestamp = Now env\<rparr>]"

text \<open>
  One pass through the body of the loop. The loop runs under \<open>context.Background()\<close>, which is
  never cancelled, so its script is a list of reader results. \<open>fmt.Sprintf("%v", err)\<close> is
  the error's message (the SMS service has no sentinel errors of its own).
\<close>

definition consumeSMSTopic_iteration ::
  "NotificationPayload kafka_env \<Rightarrow> fetch \<Rightarrow> (NotificationPayload, string \<times> string) event list" where
  "consumeSMSTopic_iteration env f =
     (case ReadMessage env f of
        (evs, Inl err) \<Rightarrow> evs
      | (evs, Inr m) \<Rightarrow>
        (case Unmarshal env (Value m) of
           (Some err, payload) \<Rightarrow> evs
         | (None, payload) \<Rightarrow>
           (case handleSMSPayload payload of
              (calls, Some err) \<Rightarrow>
                evs @ EvProcess payload # map EvSend calls
                  @ produceAck env (NotificationID payload) ''FAILURE''
                      (''Failed to send SMS: '' @ Error_chat err)
            | (calls, None) \<Rightarrow>
                evs @ EvProcess payload # map EvSend calls
                  @ produceAck env (NotificationID payload) ''SUCCESS'' ''SMS sent successfully'')))"

fun consumeSMSTopic ::
  "NotificationPayload kafka_env \<Rightarrow> fetch list \<Rightarrow> (NotificationPayload, string \<times> string) event list" where
  "consumeSMSTopic env [] = []"
| "consumeSMSTopic env (f # script) = consumeSMSTopic_iteration env f @ consumeSMSTopic env script"

section \<open>Pipelines without a validation step\<close>

subsection \<open>Chat service: packages \<open>whatsapp\<close> and \<open>service\<close>\<close>

text \<open>
  \<open>whatsapp.CleanPhoneNumber\<close>: four \<open>ReplaceAll\<close> calls, the \<open>HasPrefix\<close> test, no format
  check and no error.
\<close>

definition CleanPhoneNumber_whatsapp :: "string \<Rightarrow> string" where
  "CleanPhoneNumber_whatsapp phone =
     (let cleaned = ReplaceAll phone '' '' '''';
          cleaned = ReplaceAll cleaned ''-'' '''';
          cleaned = ReplaceAll cleaned ''('' '''';
          cleaned = ReplaceAll cleaned '')'' ''''
      in if \<not> HasPrefix cleaned ''+'' then ''+'' @ cleaned else cleaned)"

text \<open>
  \<open>whatsapp.MessageBuilder\<close>. Its \<open>renderTemplate\<close> is the loop of replacements without the
  empty check; \<open>whatsapp.GetLanguageCode\<close> has the text of \<open>utils.GetLanguageCode\<close>. None of
  the builders returns an error.
\<close>

definition renderTemplate_whatsapp :: "string \<Rightarrow> params \<Rightarrow> string" where
  "renderTemplate_whatsapp template ps = range_replace template ps"

definition BuildTextMessage :: "string \<Rightarrow> string \<Rightarrow> WhatsAppMessage" where
  "BuildTextMessage to body =
     \<lparr>MessagingProduct = ''whatsapp'', RecipientType = ''individual'',
      wa_To = CleanPhoneNumber_whatsapp to, wa_Type = ''text'',
      wa_Text = Some \<lparr>PreviewURL = True, txt_Body = body\<rparr>,
      wa_Image = None, wa_Document = None, wa_Audio = None, wa_Video = None,
      wa_Template = None\<rparr>"

definition BuildMediaMessage :: "string \<Rightarrow> ChatPayload \<Rightarrow> WhatsAppMessage" where
  "BuildMediaMessage to payload =
     (let message = \<lparr>MessagingProduct = ''whatsapp'', RecipientType = ''individual'',
                     wa_To = CleanPhoneNumber_whatsapp to, wa_Type = MediaType payload,
                     wa_Text = None, wa_Image = None, wa_Document = None, wa_Audio = None,
                     wa_Video = None, wa_Template = None\<rparr>;
          caption = renderTemplate_whatsapp (TemplateBody payload) (Params payload);
          mediaMsg = \<lparr>med_ID = [], Link = MediaURL payload, Caption = caption, Filename = []\<rparr>
      in if MediaType payload = MediaTypeImage then message\<lparr>wa_Image := Some mediaMsg\<rparr>
         else if MediaType payload = MediaTypeDocument
              then message\<lparr>wa_Document :=
                     Some (case map_of (Params payload) ''filename'' of
                             Some filename \<Rightarrow> mediaMsg\<lparr>Filename := filename\<rparr>
                           | None \<Rightarrow> mediaMsg)\<rparr>
         else if MediaType payload = MediaTypeAudio then message\<lparr>wa_Audio := Some mediaMsg\<rparr>
         else if MediaType payload = MediaTypeVideo then message\<lparr>wa_Video := Some mediaMsg\<rparr>
         else message\<lparr>wa_Type := ''image'', wa_Image := Some mediaMsg\<rparr>)"

definition BuildTemplateMessage :: "string \<Rightarrow> ChatPayload \<Rightarrow> WhatsAppMessage" where
  "BuildTemplateMessage to payload =
     (let components =
            (if length (Params payload) > 0
             then [\<lparr>cmp_Type = ''body'',
                     Parameters = map (\<lambda>(key, value).
                       \<lparr>par_Type = ''text'', par_Text = value, par_Image = None\<rparr>)
                       (Params payload)\<rparr>]
             else [])
      in \<lparr>MessagingProduct = ''whatsapp'', RecipientType = ''individual'',
          wa_To = CleanPhoneNumber_whatsapp to, wa_Type = ''template'',
          wa_Text = None, wa_Image = None, wa_Document = None, wa_Audio = None,
          wa_Video = None,
          wa_Template = Some \<lparr>tpl_Name = TemplateName payload,
                              LanguageCode = GetLanguageCode (Locale payload),
                              Components = components\<rparr>\<rparr>)"

definition BuildFromPayload :: "ChatPayload \<Rightarrow> WhatsAppMessage" where
  "BuildFromPayload payload =
     (if MediaURL payload \<noteq> [] then BuildMediaMessage (To payload) payload
      else if TemplateName payload \<noteq> [] then BuildTemplateMessage (To payload) payload
      else BuildTextMessage (To payload)
             (renderTemplate_whatsapp (TemplateBody payload) (Params payload)))"

text \<open>
  \<open>Producer.SendAck\<close>: the record is stamped and written; a failed write is wrapped.
\<close>

definition Producer_SendAck ::
  "'p kafka_env \<Rightarrow> string \<Rightarrow> string \<Rightarrow> string \<Rightarrow> ('q, 'm) event list \<times> error option" where
  "Producer_SendAck env notificationID status details =
     (let ack = \<lparr>ack_NotificationID = notificationID, ack_Status = status,
                  ack_Details = details, ack_Timestamp = Now env\<rparr>
      in ([EvAck ack],
          case WriteMessages env ack of
            None \<Rightarrow> None
          | Some err \<Rightarrow> Some (Errorf ''failed to write ack to Kafka'' err)))"

text \<open>
  Modelled from the spec: the constants \<open>models.AckStatusSuccess\<close> and
  \<open>models.AckStatusFailure\<close>, which \<open>WhatsAppService\<close> passes to the producer, are not among
  the sources; the specification gives the status of an acknowledgment as one of \<open>SUCCESS\<close>,
  \<open>FAILURE\<close> and \<open>PENDING\<close>.
\<close>

abbreviation AckStatusSuccess :: string where "AckStatusSuccess \<equiv> ''SUCCESS''"
abbreviation AckStatusFailure :: string where "AckStatusFailure \<equiv> ''FAILURE''"

text \<open>
  \<open>WhatsAppService.HandleMessage\<close> and \<open>WhatsAppService.SendTestMessage\<close>. \<open>Client.SendMessage\<close>
  of package \<open>whatsapp\<close> rejects an empty \<open>response.Messages\<close> as \<open>WhatsAppClient.SendMessage\<close>
  does, so \<open>SendMessage\<close> above stands for it, with the HTTP exchange \<open>api\<close>. The error of an
  acknowledgment write is logged and dropped.
\<close>

definition HandleMessage ::
  "'p kafka_env \<Rightarrow> (WhatsAppMessage \<Rightarrow> error + string list) \<Rightarrow> ChatPayload
     \<Rightarrow> (ChatPayload, WhatsAppMessage) event list \<times> error option" where
  "HandleMessage env api payload =
     (let message = BuildFromPayload payload
      in case SendMessage api message of
           Inl err \<Rightarrow>
             (EvSend message
                # fst (Producer_SendAck env (NotificationID payload) AckStatusFailure
                         (''Failed to send WhatsApp message: '' @ Error_chat err)),
              Some (Errorf ''failed to send WhatsApp message'' err))
         | Inr response \<Rightarrow>
             (EvSend message
                # fst (Producer_SendAck env (NotificationID payload) AckStatusSuccess
                         ''WhatsApp message sent successfully''),
              None))"

definition SendTestMessage ::
  "(WhatsAppMessage \<Rightarrow> error + string list) \<Rightarrow> ChatPayload
     \<Rightarrow> WhatsAppMessage list \<times> error option" where
  "SendTestMessage api payload =
     (let message = BuildFromPayload payload
      in case SendMessage api message of
           Inl err \<Rightarrow> ([message], Some (Errorf ''failed to send test message'' err))
         | Inr response \<Rightarrow> ([message], None))"

subsection \<open>Email service: \<open>handlePayload\<close> of \<open>main.go\<close>\<close>

text \<open>
  \<open>handlePayload\<close> renders the body with the file's own \<open>renderTemplate\<close> (the text of the SMS
  service's) and calls \<open>sendEmail\<close> with the recipient, the fixed subject and the body. The
  SMTP dialogue is the parameter \<open>sendEmail\<close>; the triple is the message sent.
\<close>

definition handlePayload ::
  "(string \<Rightarrow> string \<Rightarrow> string \<Rightarrow> error option) \<Rightarrow> NotificationPayload
     \<Rightarrow> (string \<times> string \<times> string) list \<times> error option" where
  "handlePayload sendEmail payload =
     (let body = renderTemplate (TemplateBody payload) (Params payload)
      in ([(To payload, ''Notification'', body)],
          sendEmail (To payload) ''Notification'' body))"


section \<open>Notions used in the statements\<close>

subsection \<open>Templates as token sequences\<close>

text \<open>
  A well-formed template is a sequence of literal characters other than braces and of
  placeholders \<open>{k}\<close> whose key \<open>k\<close> contains no brace; \<open>flatten\<close> gives its text.
\<close>

definition brace_free :: "string \<Rightarrow> bool" where
  "brace_free s = list_all (\<lambda>c. c \<noteq> CHR ''{'' \<and> c \<noteq> CHR ''}'') s"

datatype token = Lit char | Hole string

fun well_formed :: "token \<Rightarrow> bool" where
  "well_formed (Lit c) = (c \<noteq> CHR ''{'' \<and> c \<noteq> CHR ''}'')"
| "well_formed (Hole k) = brace_free k"

fun text_of :: "token \<Rightarrow> string" where
  "text_of (Lit c) = [c]"
| "text_of (Hole k) = placeholder k"

definition flatten :: "token list \<Rightarrow> string" where
  "flatten ts = concat (map text_of ts)"

text \<open>
  Rendering as the specification words it: every placeholder whose key is in the parameter
  map is replaced by the key's value, every other placeholder is left as it is, and a value
  put into the output is not looked at again.
\<close>

fun spec_render :: "(string \<rightharpoonup> string) \<Rightarrow> token list \<Rightarrow> string" where
  "spec_render P [] = []"
| "spec_render P (Lit c # ts) = c # spec_render P ts"
| "spec_render P (Hole k # ts) =
     (case P k of Some v \<Rightarrow> v | None \<Rightarrow> placeholder k) @ spec_render P ts"

text \<open>One pass of the rendering loop seen on tokens: the placeholders of one key become text.\<close>

fun subst_key :: "string \<Rightarrow> string \<Rightarrow> token list \<Rightarrow> token list" where
  "subst_key k v [] = []"
| "subst_key k v (Lit c # ts) = Lit c # subst_key k v ts"
| "subst_key k v (Hole k' # ts) =
     (if k' = k then map Lit v @ subst_key k v ts else Hole k' # subst_key k v ts)"

subsection \<open>Custom headers of an email request\<close>

text \<open>The string-valued entries of \<open>channelConfig["headers"]\<close>, when that is an object.\<close>

definition custom_headers :: "NotificationPayload \<Rightarrow> (string \<rightharpoonup> string)" where
  "custom_headers payload =
     (case map_of (ChannelConfig payload) ''headers'' of
        Some (IMap hs) \<Rightarrow> add_custom_headers hs Map.empty
      | _ \<Rightarrow> Map.empty)"

subsection \<open>Commit after acknowledgment\<close>

text \<open>
  A run keeps the order fetch, acknowledgment attempt, commit when, read from left to right,
  every fetch happens with no message in progress, every commit is the commit of the message
  in progress and comes after at least one acknowledgment write for it, and no message is
  left in progress at the end.
\<close>

datatype phase = Idle | Fetching KafkaMessage | Acked KafkaMessage

fun ack_then_commit :: "phase \<Rightarrow> ('p, 'm) event list \<Rightarrow> bool" where
  "ack_then_commit ph [] = (ph = Idle)"
| "ack_then_commit ph (EvFetch m # evs) = (ph = Idle \<and> ack_then_commit (Fetching m) evs)"
| "ack_then_commit ph (EvAck a # evs) =
     (case ph of
        Idle \<Rightarrow> False
      | Fetching m \<Rightarrow> ack_then_commit (Acked m) evs
      | Acked m \<Rightarrow> ack_then_commit (Acked m) evs)"
| "ack_then_commit ph (EvCommit m # evs) = (ph = Acked m \<and> ack_then_commit Idle evs)"
| "ack_then_commit ph (EvProcess p # evs) = ack_then_commit ph evs"
| "ack_then_commit ph (EvSend x # evs) = ack_then_commit ph evs"

section \<open>Sample requests and collaborators\<close>

text \<open>Concrete inputs on which the statements below are evaluated.\<close>

definition zero_payload :: NotificationPayload where
  "zero_payload =
     \<lparr>NotificationID = [], MessageType = [], To = [], TemplateBody = [], Params = [],
      ChannelConfig = [], FallbackChannels = [], Priority = [], Locale = []\<rparr>"

definition sample_email :: NotificationPayload where
  "sample_email =
     \<lparr>NotificationID = ''n-1'', MessageType = ''EMAIL'', To = ''user@example.com'',
      TemplateBody = ''Hello {name}!'', Params = [(''name'', ''World'')],
      ChannelConfig = [(''subject'', IString ''Welcome {name}'')], FallbackChannels = [],
      Priority = ''high'', Locale = ''en_US''\<rparr>"

definition sample_sms :: NotificationPayload where
  "sample_sms =
     \<lparr>NotificationID = ''n-2'', MessageType = ''SMS'', To = ''(123) 456-7890'',
      TemplateBody = ''Hello {name}!'', Params = [(''name'', ''World'')],
      ChannelConfig = [], FallbackChannels = [], Priority = ''low'', Locale = ''en''\<rparr>"

definition sample_chat :: ChatPayload where
  "sample_chat =
     \<lparr>NotificationID = ''n-3'', MessageType = ''WHATSAPP'', To = ''(123) 456-7890'',
      TemplateBody = ''Hello {name}!'', Params = [(''name'', ''World'')],
      ChannelConfig = [], FallbackChannels = [], Priority = ''medium'', Locale = ''en_US'',
      MediaURL = [], MediaType = [], TemplateName = []\<rparr>"

definition zero_chat_payload :: ChatPayload where
  "zero_chat_payload =
     \<lparr>NotificationID = [], MessageType = [], To = [], TemplateBody = [], Params = [],
      ChannelConfig = [], FallbackChannels = [], Priority = [], Locale = [],
      MediaURL = [], MediaType = [], TemplateName = []\<rparr>"

text \<open>
  Collaborators that accept the body \<open>good\<close> and reject every other body as malformed, with
  a writer and a commit that succeed, and with a writer that fails.
\<close>

definition sample_env :: "NotificationPayload kafka_env" where
  "sample_env =
     \<lparr>Unmarshal = (\<lambda>v. if v = ''good'' then (None, sample_email)
                        else (Some (ErrExternal ''unexpected end of JSON input''), zero_payload)),
      WriteMessages = (\<lambda>ack. None),
      CommitMessages = (\<lambda>m. None),
      Now = 1700000000\<rparr>"

definition failing_writer_env :: "NotificationPayload kafka_env" where
  "failing_writer_env = sample_env\<lparr>WriteMessages := (\<lambda>ack. Some (ErrExternal ''broker unavailable''))\<rparr>"

definition sample_sms_env :: "NotificationPayload kafka_env" where
  "sample_sms_env = sample_env\<lparr>Unmarshal := (\<lambda>v. if v = ''good'' then (None, sample_sms)
                        else (Some (ErrExternal ''unexpected end of JSON input''), zero_payload))\<rparr>"

definition sample_chat_env :: "ChatPayload kafka_env" where
  "sample_chat_env =
     \<lparr>Unmarshal = (\<lambda>v. if v = ''good'' then (None, sample_chat)
                        else (Some (ErrExternal ''unexpected end of JSON input''), zero_chat_payload)),
      WriteMessages = (\<lambda>ack. None),
      CommitMessages = (\<lambda>m. None),
      Now = 1700000000\<rparr>"

definition good_message :: KafkaMessage where
  "good_message = \<lparr>Offset = 7, Value = ''good''\<rparr>"

definition malformed_message :: KafkaMessage where
  "malformed_message = \<lparr>Offset = 8, Value = ''{not json''\<rparr>"

definition accepting_api :: "WhatsAppMessage \<Rightarrow> error + string list" where
  "accepting_api message = Inr [''wamid.1'']"

definition accepting_smtp :: "EmailMessage \<Rightarrow> error option" where
  "accepting_smtp message = None"

definition failing_smtp :: "EmailMessage \<Rightarrow> error option" where
  "failing_smtp message = Some (ErrExternal ''network error: connection refused'')"

section \<open>Phone cleanup of the chat service\<close>

lemma CleanPhoneNumber_eq:
  "CleanPhoneNumber phone =
     (if phoneNumberRegex (cleaned_chat phone) then Inr (cleaned_chat phone)
      else Inl ErrInvalidPhoneNumber)"
  by (simp add: CleanPhoneNumber_def cleaned_chat_def HasPrefix_def)

lemma phoneNumberRegex_leading_zero: "\<not> phoneNumberRegex (CHR ''+'' # CHR ''0'' # rest)"
  by (simp add: is_nonzero_digit_def)

lemma phoneNumberRegex_digits: "phoneNumberRegex s \<Longrightarrow> list_all is_digit (tl s)"
  by (cases s rule: phoneNumberRegex.cases) (auto simp: is_nonzero_digit_def is_digit_def)

lemma phoneNumberRegex_length: "phoneNumberRegex s \<Longrightarrow> length s \<le> 16"
  by (cases s rule: phoneNumberRegex.cases) auto

lemma ProcessNotification_chat_bad_phone:
  assumes "\<not> phoneNumberRegex (cleaned_chat (To payload))"
  shows "ProcessNotification_chat api payload =
    ([], Some (case IsValid_chat payload of
                 Some err \<Rightarrow> Errorf ''invalid notification payload'' err
               | None \<Rightarrow> Errorf (''invalid phone number '' @ To payload) ErrInvalidPhoneNumber))"
  using assms by (simp add: ProcessNotification_chat_def CleanPhoneNumber_eq split: option.splits)

text \<open>
  Claim C10. The chat service's \<open>CleanPhoneNumber\<close> returns the cleaned number exactly when
  the cleaned string matches \<^verbatim>\<open>^\+[1-9]\d{1,14}$\<close>, and the invalid-phone-number error
  otherwise. Hence, when the cleaned recipient does not match, \<open>ProcessNotification\<close> returns
  an error of the validation stage or of the phone stage and hands no message to the sender;
  a leading zero after the plus sign, a character other than a digit after the first one,
  and more than fifteen digits each make the match fail.
\<close>

theorem chat_phone_cleanup_validates:
  "CleanPhoneNumber phone =
     (if phoneNumberRegex (cleaned_chat phone) then Inr (cleaned_chat phone)
      else Inl ErrInvalidPhoneNumber)
   \<and> (\<not> phoneNumberRegex (cleaned_chat (To payload)) \<longrightarrow>
        ProcessNotification_chat api payload =
          ([], Some (case IsValid_chat payload of
                       Some err \<Rightarrow> Errorf ''invalid notification payload'' err
                     | None \<Rightarrow> Errorf (''invalid phone number '' @ To payload)
                                ErrInvalidPhoneNumber)))
   \<and> \<not> phoneNumberRegex (CHR ''+'' # CHR ''0'' # rest)
   \<and> (\<not> list_all is_digit (tl s) \<longrightarrow> \<not> phoneNumberRegex s)
   \<and> (16 < length s' \<longrightarrow> \<not> phoneNumberRegex s')"
proof (intro conjI impI)
  show "CleanPhoneNumber phone =
     (if phoneNumberRegex (cleaned_chat phone) then Inr (cleaned_chat phone)
      else Inl ErrInvalidPhoneNumber)"
    by (rule CleanPhoneNumber_eq)
  show "\<not> phoneNumberRegex (CHR ''+'' # CHR ''0'' # rest)"
    by (rule phoneNumberRegex_leading_zero)
  show "\<not> phoneNumberRegex s" if "\<not> list_all is_digit (tl s)"
    using that phoneNumberRegex_digits by blast
  show "\<not> phoneNumberRegex s'" if "16 < length s'"
    using that phoneNumberRegex_length [of s'] by auto
qed (rule ProcessNotification_chat_bad_phone)

theorem chat_phone_cleanup_validates_witness:
  "\<not> phoneNumberRegex (cleaned_chat (To (sample_chat\<lparr>To := ''+0 12-34''\<rparr>)))
   \<and> ProcessNotification_chat accepting_api (sample_chat\<lparr>To := ''+0 12-34''\<rparr>)
       = ([], Some (Errorf ''invalid phone number +0 12-34'' ErrInvalidPhoneNumber))
   \<and> CleanPhoneNumber ''(123) 456-7890'' = Inr ''+1234567890''
   \<and> \<not> list_all is_digit (tl ''+12a4'') \<and> \<not> phoneNumberRegex ''+12a4''
   \<and> 16 < length ''+1234567890123456'' \<and> \<not> phoneNumberRegex ''+1234567890123456''"
  using chat_phone_cleanup_validates
          [of "''(123) 456-7890''" "sample_chat\<lparr>To := ''+0 12-34''\<rparr>" accepting_api "[]"
              "''+12a4''" "''+1234567890123456''"]
  by (simp add: sample_chat_def cleaned_chat_def HasPrefix_def is_nonzero_digit_def is_digit_def
        IsValid_chat_def)

section \<open>Shape selection of the chat composer\<close>






section \<open>Priority header of the email composer\<close>

lemma add_custom_headers_lookup:
  "add_custom_headers hs h k =
     (case add_custom_headers hs Map.empty k of Some v \<Rightarrow> Some v | None \<Rightarrow> h k)"
proof (induction hs arbitrary: h)
  case Nil
  show ?case by simp
next
  case (Cons x hs)
  obtain key val where x: "x = (key, val)" by (cases x)
  let ?c = "add_custom_headers hs Map.empty k"
  show ?case
  proof (cases "\<exists>s. val = IString s")
    case True
    then obtain s where s: "val = IString s" by blast
    have step: "add_custom_headers (x # hs) h' k = add_custom_headers hs (h'(key \<mapsto> s)) k" for h'
      by (simp add: x s)
    have l: "add_custom_headers (x # hs) h k =
        (case ?c of Some v \<Rightarrow> Some v | None \<Rightarrow> (h(key \<mapsto> s)) k)"
      unfolding step by (rule Cons.IH)
    have r: "add_custom_headers (x # hs) Map.empty k =
        (case ?c of Some v \<Rightarrow> Some v | None \<Rightarrow> (Map.empty(key \<mapsto> s)) k)"
      unfolding step by (rule Cons.IH)
    show ?thesis unfolding l r by (simp split: option.splits)
  next
    case False
    have skip: "add_custom_headers (x # hs) h' k = add_custom_headers hs h' k" for h'
      using False by (cases val) (simp_all add: x)
    show ?thesis unfolding skip by (rule Cons.IH)
  qed
qed

lemma BuildEmailMessage_priority_header:
  assumes "BuildEmailMessage payload ps' = Inr message"
  shows "em_Headers message ''X-Priority'' =
           (case custom_headers payload ''X-Priority'' of
              Some v \<Rightarrow> Some v
            | None \<Rightarrow> if Priority payload = [] then None
                      else Some (mapPriorityToHeader (Priority payload)))"
proof -
  from assms have v: "IsValid_email payload = None"
    by (auto simp: BuildEmailMessage_def split: option.splits)
  define h1 :: "string \<rightharpoonup> string" where
    "h1 = (if NotificationID payload \<noteq> []
           then (if Priority payload \<noteq> []
                 then Map.empty(''X-Priority'' \<mapsto> mapPriorityToHeader (Priority payload))
                 else Map.empty)(''X-Notification-ID'' \<mapsto> NotificationID payload)
           else (if Priority payload \<noteq> []
                 then Map.empty(''X-Priority'' \<mapsto> mapPriorityToHeader (Priority payload))
                 else Map.empty))"
  have h1k: "h1 ''X-Priority'' =
      (if Priority payload = [] then None else Some (mapPriorityToHeader (Priority payload)))"
    by (simp add: h1_def)
  have "BuildEmailMessage payload ps' =
      Inr \<lparr>em_To = To payload,
           em_Subject = RenderTemplate (GetSubject payload) (Params payload),
           em_Body = RenderTemplate (TemplateBody payload) ps',
           em_Headers = (case map_of (ChannelConfig payload) ''headers'' of
                           Some (IMap hs) \<Rightarrow> add_custom_headers hs h1 | _ \<Rightarrow> h1)\<rparr>"
    unfolding BuildEmailMessage_def RenderEmailTemplate_def Let_def h1_def
    by (simp add: v)
  with assms have hd: "em_Headers message =
      (case map_of (ChannelConfig payload) ''headers'' of
         Some (IMap hs) \<Rightarrow> add_custom_headers hs h1 | _ \<Rightarrow> h1)"
    by auto
  show ?thesis
  proof (cases "map_of (ChannelConfig payload) ''headers''")
    case None
    then show ?thesis by (simp add: hd custom_headers_def h1k)
  next
    case (Some c)
    show ?thesis
    proof (cases c)
      case (IMap hs)
      have "em_Headers message ''X-Priority'' = add_custom_headers hs h1 ''X-Priority''"
        by (simp add: hd Some IMap)
      also have "\<dots> = (case add_custom_headers hs Map.empty ''X-Priority'' of
                         Some v \<Rightarrow> Some v | None \<Rightarrow> h1 ''X-Priority'')"
        by (rule add_custom_headers_lookup)
      finally show ?thesis by (simp add: custom_headers_def Some IMap h1k split: option.splits)
    qed (simp_all add: hd Some custom_headers_def h1k)
  qed
qed

text \<open>
  Claim C8, as stated: every priority string, the empty one included, leaves the composed
  message with an \<open>X-Priority\<close> header. It fails for the empty priority: the composer adds
  the header only under the guard \<open>payload.Priority != ""\<close>.
\<close>

theorem empty_priority_no_header_counterexample:
  "Priority (sample_email\<lparr>Priority := []\<rparr>) = []
   \<and> \<not> isl (BuildEmailMessage (sample_email\<lparr>Priority := []\<rparr>) (Params sample_email))
   \<and> em_Headers (projr (BuildEmailMessage (sample_email\<lparr>Priority := []\<rparr>) (Params sample_email)))
         ''X-Priority'' = None"
  by (simp add: sample_email_def BuildEmailMessage_def IsValid_email_def RenderEmailTemplate_def
        GetSubject_def Let_def)

text \<open>
  Claim C8, amended. \<open>mapPriorityToHeader\<close> is total: urgent, high, medium and low map to
  \<open>1 (Highest)\<close>, \<open>2 (High)\<close>, \<open>3 (Normal)\<close> and \<open>4 (Low)\<close>, and every other string, the
  empty string and \<open>unknown\<close> included, maps to \<open>3 (Normal)\<close>. In a composed message the
  \<open>X-Priority\<close> header is the string-valued \<open>X-Priority\<close> entry of \<open>channelConfig.headers\<close>
  when there is one; otherwise it is absent for the empty priority and the mapped value for
  every other priority.
\<close>

theorem priority_header_mapping:
  "mapPriorityToHeader ''urgent'' = ''1 (Highest)''
   \<and> mapPriorityToHeader ''high'' = ''2 (High)''
   \<and> mapPriorityToHeader ''medium'' = ''3 (Normal)''
   \<and> mapPriorityToHeader ''low'' = ''4 (Low)''
   \<and> mapPriorityToHeader [] = ''3 (Normal)''
   \<and> mapPriorityToHeader ''unknown'' = ''3 (Normal)''
   \<and> (priority \<noteq> ''urgent'' \<and> priority \<noteq> ''high'' \<and> priority \<noteq> ''low''
        \<longrightarrow> mapPriorityToHeader priority = ''3 (Normal)'')
   \<and> (BuildEmailMessage payload ps' = Inr message \<longrightarrow>
        em_Headers message ''X-Priority'' =
          (case custom_headers payload ''X-Priority'' of
             Some v \<Rightarrow> Some v
           | None \<Rightarrow> if Priority payload = [] then None
                     else Some (mapPriorityToHeader (Priority payload))))"
proof (intro conjI impI)
  show "mapPriorityToHeader priority = ''3 (Normal)''"
    if "priority \<noteq> ''urgent'' \<and> priority \<noteq> ''high'' \<and> priority \<noteq> ''low''"
    using that by (simp add: mapPriorityToHeader_def)
  show "em_Headers message ''X-Priority'' =
          (case custom_headers payload ''X-Priority'' of
             Some v \<Rightarrow> Some v
           | None \<Rightarrow> if Priority payload = [] then None
                     else Some (mapPriorityToHeader (Priority payload)))"
    if "BuildEmailMessage payload ps' = Inr message"
    using that by (rule BuildEmailMessage_priority_header)
qed (simp_all add: mapPriorityToHeader_def)

theorem priority_header_mapping_witness:
  "''critical'' \<noteq> ''urgent'' \<and> ''critical'' \<noteq> ''high'' \<and> ''critical'' \<noteq> ''low''
   \<and> mapPriorityToHeader ''critical'' = ''3 (Normal)''
   \<and> BuildEmailMessage (sample_email\<lparr>Priority := ''critical''\<rparr>) (Params sample_email)
       = Inr (projr (BuildEmailMessage (sample_email\<lparr>Priority := ''critical''\<rparr>) (Params sample_email)))
   \<and> em_Headers (projr (BuildEmailMessage (sample_email\<lparr>Priority := ''critical''\<rparr>)
                           (Params sample_email))) ''X-Priority'' = Some ''3 (Normal)''"
proof -
  have b: "BuildEmailMessage (sample_email\<lparr>Priority := ''critical''\<rparr>) (Params sample_email)
       = Inr (projr (BuildEmailMessage (sample_email\<lparr>Priority := ''critical''\<rparr>) (Params sample_email)))"
    by (simp add: sample_email_def BuildEmailMessage_def IsValid_email_def RenderEmailTemplate_def
          GetSubject_def Let_def)
  have c: "custom_headers (sample_email\<lparr>Priority := ''critical''\<rparr>) ''X-Priority'' = None"
    by (simp add: sample_email_def custom_headers_def)
  show ?thesis
    using priority_header_mapping
            [of "''critical''" "sample_email\<lparr>Priority := ''critical''\<rparr>" "Params sample_email"
                "projr (BuildEmailMessage (sample_email\<lparr>Priority := ''critical''\<rparr>)
                          (Params sample_email))"] b c
    by (simp add: sample_email_def)
qed

section \<open>Phone cleanup of the SMS service\<close>

text \<open>
  Claim C9. The cleanup is claimed to remove dots in the chat and in the SMS service. On
  \<open>123.456.7890\<close> the SMS service's \<open>cleanPhoneNumber\<close> keeps the dots, while the chat
  service's \<open>CleanPhoneNumber\<close> removes them; on the two inputs named in the claim both give
  \<open>+1234567890\<close>.
\<close>

theorem sms_cleanPhoneNumber_keeps_dots:
  "cleanPhoneNumber ''123.456.7890'' = ''+123.456.7890''
   \<and> CleanPhoneNumber ''123.456.7890'' = Inr ''+1234567890''
   \<and> cleanPhoneNumber ''(123) 456-7890'' = ''+1234567890''
   \<and> cleanPhoneNumber ''+1234567890'' = ''+1234567890''
   \<and> CleanPhoneNumber ''(123) 456-7890'' = Inr ''+1234567890''
   \<and> CleanPhoneNumber ''+1234567890'' = Inr ''+1234567890''"
  by (simp add: cleanPhoneNumber_def CleanPhoneNumber_def cleaned_chat_def HasPrefix_def
        is_digit_def is_nonzero_digit_def)

section \<open>Validation before composition\<close>

lemma ProcessNotification_chat_invalid:
  assumes "IsValid_chat payload = Some err"
  shows "ProcessNotification_chat api payload =
           ([], Some (Errorf ''invalid notification payload'' err))"
  using assms by (simp add: ProcessNotification_chat_def)

lemma ProcessNotification_email_invalid:
  assumes "IsValid_email payload = Some err"
  shows "BuildEmailMessage payload ps' = Inl err
         \<and> ProcessNotification_email SendEmail ps' payload =
             ([], Some (Errorf ''failed to build email message'' err))"
  using assms by (simp add: ProcessNotification_email_def BuildEmailMessage_def)

lemma handleSMSPayload_no_validation:
  "handleSMSPayload payload =
     ([(cleanPhoneNumber (To payload), renderTemplate (TemplateBody payload) (Params payload))],
      None)"
  by (simp add: handleSMSPayload_def sendSMS_def)

text \<open>
  Claim C6, as stated: in every channel's pipeline a request with an empty recipient fails
  validation and never reaches the sender. It fails for the SMS service, whose pipeline has
  no validation: a request with an empty recipient is sent to \<open>+\<close>.
\<close>

theorem sms_empty_recipient_is_sent_counterexample:
  "To (sample_sms\<lparr>To := []\<rparr>) = []
   \<and> handleSMSPayload (sample_sms\<lparr>To := []\<rparr>) = ([(''+'', ''Hello World!'')], None)"
  by (simp add: sample_sms_def handleSMSPayload_def sendSMS_def cleanPhoneNumber_def
        renderTemplate_def placeholder_def HasPrefix_def)

lemma CleanPhoneNumber_whatsapp_empty: "CleanPhoneNumber_whatsapp [] = ''+''"
  by (simp add: CleanPhoneNumber_whatsapp_def HasPrefix_def)

lemma cleanPhoneNumber_empty: "cleanPhoneNumber [] = ''+''"
  by (simp add: cleanPhoneNumber_def HasPrefix_def)

lemma BuildFromPayload_recipient:
  "wa_To (BuildFromPayload payload) = CleanPhoneNumber_whatsapp (To payload)"
  by (simp add: BuildFromPayload_def BuildMediaMessage_def BuildTemplateMessage_def
        BuildTextMessage_def Let_def)

lemma SendTestMessage_sends: "fst (SendTestMessage api payload) = [BuildFromPayload payload]"
  by (simp add: SendTestMessage_def Let_def split: sum.splits)

lemma HandleMessage_sends:
  "fst (HandleMessage env api payload) =
     [EvSend (BuildFromPayload payload),
      EvAck \<lparr>ack_NotificationID = NotificationID payload,
             ack_Status = (case SendMessage api (BuildFromPayload payload) of
                             Inl err \<Rightarrow> AckStatusFailure | Inr response \<Rightarrow> AckStatusSuccess),
             ack_Details = (case SendMessage api (BuildFromPayload payload) of
                              Inl err \<Rightarrow> ''Failed to send WhatsApp message: '' @ Error_chat err
                            | Inr response \<Rightarrow> ''WhatsApp message sent successfully''),
             ack_Timestamp = Now env\<rparr>]"
  by (simp add: HandleMessage_def Producer_SendAck_def Let_def split: sum.splits)

lemma handlePayload_sends:
  "fst (handlePayload sendEmail payload) =
     [(To payload, ''Notification'', renderTemplate (TemplateBody payload) (Params payload))]"
  by (simp add: handlePayload_def Let_def)

text \<open>
  Claim C6, amended. In \<open>NotificationService.ProcessNotification\<close> of the chat service and of
  the email service validation fails fast on the first violated rule, in the order: empty
  identifier, empty recipient, missing content (chat: \<open>templateBody\<close> and \<open>templateName\<close>
  both empty; email: \<open>templateBody\<close> empty). There it runs before composition: a request
  that fails it, one with an empty recipient in particular, ends the pipeline with the
  validation error and nothing is handed to the sender. The other pipelines have no
  validation step and hand every request to the sender: the SMS service's
  \<open>handleSMSPayload\<close>, \<open>WhatsAppService.HandleMessage\<close> and \<open>SendTestMessage\<close> of the chat
  service, and \<open>handlePayload\<close> of the email service's \<open>main.go\<close>; with an empty recipient
  the SMS and the chat message go to \<open>+\<close> and the email to the empty address.
\<close>

theorem validation_fails_fast_before_composition:
  "IsValid_chat c =
     (if NotificationID c = [] then Some ErrInvalidNotificationID
      else if To c = [] then Some ErrInvalidRecipient
      else if TemplateBody c = [] \<and> TemplateName c = [] then Some ErrMissingContent
      else None)
   \<and> IsValid_email e =
     (if NotificationID e = [] then Some ErrInvalidNotificationID
      else if To e = [] then Some ErrInvalidRecipient
      else if TemplateBody e = [] then Some ErrMissingContent
      else None)
   \<and> (IsValid_chat c = Some err \<longrightarrow>
        ProcessNotification_chat api c = ([], Some (Errorf ''invalid notification payload'' err)))
   \<and> (IsValid_email e = Some err' \<longrightarrow>
        BuildEmailMessage e ps' = Inl err'
        \<and> ProcessNotification_email SendEmail ps' e =
            ([], Some (Errorf ''failed to build email message'' err')))
   \<and> (NotificationID c \<noteq> [] \<and> To c = [] \<longrightarrow>
        ProcessNotification_chat api c =
          ([], Some (Errorf ''invalid notification payload'' ErrInvalidRecipient)))
   \<and> (NotificationID e \<noteq> [] \<and> To e = [] \<longrightarrow>
        ProcessNotification_email SendEmail ps' e =
          ([], Some (Errorf ''failed to build email message'' ErrInvalidRecipient)))
   \<and> handleSMSPayload e =
        ([(cleanPhoneNumber (To e), renderTemplate (TemplateBody e) (Params e))], None)
   \<and> cleanPhoneNumber [] = ''+''
   \<and> fst (SendTestMessage api c) = [BuildFromPayload c]
   \<and> fst (HandleMessage env api c) =
        [EvSend (BuildFromPayload c),
         EvAck \<lparr>ack_NotificationID = NotificationID c,
                ack_Status = (case SendMessage api (BuildFromPayload c) of
                                Inl err \<Rightarrow> AckStatusFailure | Inr response \<Rightarrow> AckStatusSuccess),
                ack_Details = (case SendMessage api (BuildFromPayload c) of
                                 Inl err \<Rightarrow> ''Failed to send WhatsApp message: '' @ Error_chat err
                               | Inr response \<Rightarrow> ''WhatsApp message sent successfully''),
                ack_Timestamp = Now env\<rparr>]
   \<and> wa_To (BuildFromPayload c) = CleanPhoneNumber_whatsapp (To c)
   \<and> CleanPhoneNumber_whatsapp [] = ''+''
   \<and> fst (handlePayload sendEmail e) =
        [(To e, ''Notification'', renderTemplate (TemplateBody e) (Params e))]"
proof (intro conjI impI)
  show "ProcessNotification_chat api c = ([], Some (Errorf ''invalid notification payload'' err))"
    if "IsValid_chat c = Some err"
    using that by (rule ProcessNotification_chat_invalid)
  show "BuildEmailMessage e ps' = Inl err'" if "IsValid_email e = Some err'"
    using that ProcessNotification_email_invalid by blast
  show "ProcessNotification_email SendEmail ps' e =
          ([], Some (Errorf ''failed to build email message'' err'))"
    if "IsValid_email e = Some err'"
    using that ProcessNotification_email_invalid by blast
  show "ProcessNotification_chat api c =
          ([], Some (Errorf ''invalid notification payload'' ErrInvalidRecipient))"
    if "NotificationID c \<noteq> [] \<and> To c = []"
  proof -
    from that have "IsValid_chat c = Some ErrInvalidRecipient" by (simp add: IsValid_chat_def)
    then show ?thesis by (rule ProcessNotification_chat_invalid)
  qed
  show "ProcessNotification_email SendEmail ps' e =
          ([], Some (Errorf ''failed to build email message'' ErrInvalidRecipient))"
    if "NotificationID e \<noteq> [] \<and> To e = []"
  proof -
    from that have "IsValid_email e = Some ErrInvalidRecipient" by (simp add: IsValid_email_def)
    then show ?thesis using ProcessNotification_email_invalid by blast
  qed
  show "handleSMSPayload e =
        ([(cleanPhoneNumber (To e), renderTemplate (TemplateBody e) (Params e))], None)"
    by (rule handleSMSPayload_no_validation)
  show "cleanPhoneNumber [] = ''+''"
    by (rule cleanPhoneNumber_empty)
  show "fst (SendTestMessage api c) = [BuildFromPayload c]"
    by (rule SendTestMessage_sends)
  show "fst (HandleMessage env api c) =
        [EvSend (BuildFromPayload c),
         EvAck \<lparr>ack_NotificationID = NotificationID c,
                ack_Status = (case SendMessage api (BuildFromPayload c) of
                                Inl err \<Rightarrow> AckStatusFailure | Inr response \<Rightarrow> AckStatusSuccess),
                ack_Details = (case SendMessage api (BuildFromPayload c) of
                                 Inl err \<Rightarrow> ''Failed to send WhatsApp message: '' @ Error_chat err
                               | Inr response \<Rightarrow> ''WhatsApp message sent successfully''),
                ack_Timestamp = Now env\<rparr>]"
    by (rule HandleMessage_sends)
  show "wa_To (BuildFromPayload c) = CleanPhoneNumber_whatsapp (To c)"
    by (rule BuildFromPayload_recipient)
  show "CleanPhoneNumber_whatsapp [] = ''+''"
    by (rule CleanPhoneNumber_whatsapp_empty)
  show "fst (handlePayload sendEmail e) =
        [(To e, ''Notification'', renderTemplate (TemplateBody e) (Params e))]"
    by (rule handlePayload_sends)
qed (simp_all add: IsValid_chat_def IsValid_email_def)

theorem validation_fails_fast_before_composition_witness:
  "NotificationID (sample_chat\<lparr>To := []\<rparr>) \<noteq> [] \<and> To (sample_chat\<lparr>To := []\<rparr>) = []
   \<and> IsValid_chat (sample_chat\<lparr>To := []\<rparr>) = Some ErrInvalidRecipient
   \<and> ProcessNotification_chat accepting_api (sample_chat\<lparr>To := []\<rparr>) =
        ([], Some (Errorf ''invalid notification payload'' ErrInvalidRecipient))
   \<and> NotificationID (sample_email\<lparr>To := []\<rparr>) \<noteq> [] \<and> To (sample_email\<lparr>To := []\<rparr>) = []
   \<and> IsValid_email (sample_email\<lparr>To := []\<rparr>) = Some ErrInvalidRecipient
   \<and> ProcessNotification_email accepting_smtp (Params sample_email) (sample_email\<lparr>To := []\<rparr>) =
        ([], Some (Errorf ''failed to build email message'' ErrInvalidRecipient))
   \<and> IsValid_chat (sample_chat\<lparr>TemplateBody := []\<rparr>) = Some ErrMissingContent
   \<and> IsValid_chat (sample_chat\<lparr>NotificationID := [], To := []\<rparr>) = Some ErrInvalidNotificationID
   \<and> wa_To (BuildFromPayload (sample_chat\<lparr>To := []\<rparr>)) = ''+''
   \<and> fst (SendTestMessage accepting_api (sample_chat\<lparr>To := []\<rparr>))
       = [BuildFromPayload (sample_chat\<lparr>To := []\<rparr>)]
   \<and> fst (handlePayload (\<lambda>to subject body. None) (sample_email\<lparr>To := []\<rparr>))
       = [([], ''Notification'', ''Hello World!'')]"
  using validation_fails_fast_before_composition
          [of "sample_chat\<lparr>To := []\<rparr>" "sample_email\<lparr>To := []\<rparr>" ErrInvalidRecipient
              accepting_api ErrInvalidRecipient "Params sample_email" accepting_smtp
              sample_chat_env "\<lambda>to subject body. None"]
        validation_fails_fast_before_composition
          [of "sample_chat\<lparr>TemplateBody := []\<rparr>" sample_email ErrMissingContent
              accepting_api ErrMissingContent "Params sample_email" accepting_smtp
              sample_chat_env "\<lambda>to subject body. None"]
        validation_fails_fast_before_composition
          [of "sample_chat\<lparr>NotificationID := [], To := []\<rparr>" sample_email ErrMissingContent
              accepting_api ErrMissingContent "Params sample_email" accepting_smtp
              sample_chat_env "\<lambda>to subject body. None"]
  by (simp add: sample_chat_def sample_email_def renderTemplate_def placeholder_def)


section \<open>Consumer loops: malformed messages\<close>

lemma StartConsumer_step:
  "StartConsumer env processor (Poll f # script) =
     (StartConsumer_iteration env processor f @ fst (StartConsumer env processor script),
      snd (StartConsumer env processor script))"
  by (simp add: split_def Let_def)

lemma Start_step:
  "Start env handler (Poll f # script) =
     (Start_iteration env handler f @ fst (Start env handler script),
      snd (Start env handler script))"
  by (simp add: split_def Let_def)

lemma StartConsumer_iteration_malformed:
  assumes "Unmarshal env (Value m) = (Some err, payload)"
  shows "StartConsumer_iteration env processor (Fetched m) =
           [EvFetch m,
            EvAck \<lparr>ack_NotificationID = NotificationID payload, ack_Status = StatusFailure,
                   ack_Details = ''Invalid JSON payload'', ack_Timestamp = Now env\<rparr>,
            EvCommit m]"
  using assms
  by (simp add: StartConsumer_iteration_def FetchMessage_def processMessage_def SendAck_def Let_def)

lemma Start_iteration_malformed:
  assumes "Unmarshal env (Value m) = (Some err, payload)"
  shows "Start_iteration env handler (Fetched m) = [EvFetch m, EvCommit m]"
  using assms by (simp add: Start_iteration_def ReadMessage_def split: option.splits)

lemma consumeSMSTopic_iteration_malformed:
  assumes "Unmarshal env (Value m) = (Some err, payload)"
  shows "consumeSMSTopic_iteration env (Fetched m) = [EvFetch m, EvCommit m]"
  using assms by (simp add: consumeSMSTopic_iteration_def ReadMessage_def split: option.splits)

text \<open>
  Claim C1, as stated: every consumer loop answers a message whose body fails to decode
  with one FAILURE acknowledgment. It fails for the chat service's \<open>Consumer.Start\<close> and for
  the SMS loop: on the malformed sample message their runs consist of the read (with its
  commit) alone, and no acknowledgment is written.
\<close>

theorem malformed_message_not_acknowledged_counterexample:
  "fst (Unmarshal sample_chat_env (Value malformed_message)) \<noteq> None
   \<and> Start sample_chat_env (\<lambda>payload. ([], None)) [Poll (Fetched malformed_message)]
       = ([EvFetch malformed_message, EvCommit malformed_message], Waiting)
   \<and> fst (Unmarshal sample_sms_env (Value malformed_message)) \<noteq> None
   \<and> consumeSMSTopic sample_sms_env [Fetched malformed_message]
       = [EvFetch malformed_message, EvCommit malformed_message]"
  by (simp add: sample_chat_env_def sample_sms_env_def sample_env_def malformed_message_def
        Start_iteration_def consumeSMSTopic_iteration_def ReadMessage_def)

text \<open>
  Claim C1, amended. In the email service's \<open>KafkaService\<close> loop, a message whose body fails
  to decode is answered by exactly one acknowledgment write, with status FAILURE, details
  \<open>Invalid JSON payload\<close> and the identifier found in the payload as the failed decoding left
  it; the processor (validator, composer, sender) is not called; the message is then
  committed and the loop goes on with the next message.
\<close>

theorem malformed_message_email_acknowledged:
  "Unmarshal env (Value m) = (Some err, payload) \<longrightarrow>
      StartConsumer env processor (Poll (Fetched m) # script) =
        ([EvFetch m,
          EvAck \<lparr>ack_NotificationID = NotificationID payload, ack_Status = StatusFailure,
                 ack_Details = ''Invalid JSON payload'', ack_Timestamp = Now env\<rparr>,
          EvCommit m] @ fst (StartConsumer env processor script),
         snd (StartConsumer env processor script))"
proof
  assume u: "Unmarshal env (Value m) = (Some err, payload)"
  show "StartConsumer env processor (Poll (Fetched m) # script) =
        ([EvFetch m,
          EvAck \<lparr>ack_NotificationID = NotificationID payload, ack_Status = StatusFailure,
                 ack_Details = ''Invalid JSON payload'', ack_Timestamp = Now env\<rparr>,
          EvCommit m] @ fst (StartConsumer env processor script),
         snd (StartConsumer env processor script))"
    unfolding StartConsumer_step StartConsumer_iteration_malformed [OF u] by simp
qed

theorem malformed_message_email_acknowledged_witness:
  "Unmarshal sample_env (Value malformed_message)
     = (Some (ErrExternal ''unexpected end of JSON input''), zero_payload)
   \<and> StartConsumer sample_env (ProcessNotification_email accepting_smtp (Params sample_email))
        [Poll (Fetched malformed_message), Poll (Fetched good_message), CtxDone]
     = ([EvFetch malformed_message,
         EvAck \<lparr>ack_NotificationID = [], ack_Status = StatusFailure,
                ack_Details = ''Invalid JSON payload'', ack_Timestamp = 1700000000\<rparr>,
         EvCommit malformed_message]
        @ fst (StartConsumer sample_env
                 (ProcessNotification_email accepting_smtp (Params sample_email))
                 [Poll (Fetched good_message), CtxDone]),
        Stopped Canceled)"
proof -
  let ?P = "ProcessNotification_email accepting_smtp (Params sample_email)"
  have u: "Unmarshal sample_env (Value malformed_message)
             = (Some (ErrExternal ''unexpected end of JSON input''), zero_payload)"
    by (simp add: sample_env_def malformed_message_def)
  have e: "StartConsumer sample_env ?P
             (Poll (Fetched malformed_message) # [Poll (Fetched good_message), CtxDone])
           = ([EvFetch malformed_message,
               EvAck \<lparr>ack_NotificationID = NotificationID zero_payload,
                      ack_Status = StatusFailure, ack_Details = ''Invalid JSON payload'',
                      ack_Timestamp = Now sample_env\<rparr>,
               EvCommit malformed_message]
              @ fst (StartConsumer sample_env ?P [Poll (Fetched good_message), CtxDone]),
              snd (StartConsumer sample_env ?P [Poll (Fetched good_message), CtxDone]))"
    using malformed_message_email_acknowledged
            [of sample_env malformed_message "ErrExternal ''unexpected end of JSON input''"
                zero_payload ?P "[Poll (Fetched good_message), CtxDone]"] u
    by blast
  have s: "snd (StartConsumer sample_env ?P [Poll (Fetched good_message), CtxDone])
             = Stopped Canceled"
    by (simp add: split_def Let_def)
  have z: "NotificationID zero_payload = []" "Now sample_env = 1700000000"
    by (simp_all add: zero_payload_def sample_env_def)
  show ?thesis unfolding e s z using u by simp
qed


section \<open>Consumer loops: one acknowledgment per processed message\<close>

lemma ProcessNotification_email_calls:
  "length (fst (ProcessNotification_email SendEmail ps' payload)) \<le> 1
   \<and> (snd (ProcessNotification_email SendEmail ps' payload) = None) =
       (\<exists>message. fst (ProcessNotification_email SendEmail ps' payload) = [message]
                   \<and> SendEmail message = None)"
  by (auto simp: ProcessNotification_email_def split: sum.splits option.splits)

lemma StartConsumer_iteration_decoded:
  assumes "Unmarshal env (Value m) = (None, payload)"
  shows "StartConsumer_iteration env processor (Fetched m) =
           EvFetch m # EvProcess payload # map EvSend (fst (processor payload))
           @ [EvAck \<lparr>ack_NotificationID = NotificationID payload,
                     ack_Status = (case snd (processor payload) of
                                     None \<Rightarrow> StatusSuccess | Some err \<Rightarrow> StatusFailure),
                     ack_Details = (case snd (processor payload) of
                                      None \<Rightarrow> ''Email sent successfully''
                                    | Some err \<Rightarrow> Error_email err),
                     ack_Timestamp = Now env\<rparr>,
              EvCommit m]"
proof (cases "processor payload")
  case (Pair calls r)
  then show ?thesis
    using assms
    by (cases r)
       (simp_all add: StartConsumer_iteration_def FetchMessage_def processMessage_def
          SendAck_def Let_def)
qed

lemma consumeSMSTopic_iteration_decoded:
  assumes "Unmarshal env (Value m) = (None, payload)" and "CommitMessages env m = None"
  shows "consumeSMSTopic_iteration env (Fetched m) =
           [EvFetch m, EvCommit m, EvProcess payload,
            EvSend (cleanPhoneNumber (To payload),
                    renderTemplate (TemplateBody payload) (Params payload)),
            EvAck \<lparr>ack_NotificationID = NotificationID payload, ack_Status = StatusSuccess,
                   ack_Details = ''SMS sent successfully'', ack_Timestamp = Now env\<rparr>]"
  using assms
  by (simp add: consumeSMSTopic_iteration_def ReadMessage_def handleSMSPayload_def sendSMS_def
        produceAck_def)

text \<open>
  Claim C2. For a message that decodes, one pass of the email loop is: fetch, the call of
  the pipeline with the messages it hands to the sender, exactly one acknowledgment write,
  commit; then the loop goes on with the rest of the queue. The acknowledgment carries the
  request's identifier; its status is SUCCESS when the pipeline returned no error, which is
  the case exactly when the sender was called and succeeded, and FAILURE with the message of
  the error otherwise. The sender is called at most once. The same holds for one pass of the
  SMS loop for a message that was read and decodes, where the send always succeeds.
\<close>

theorem one_acknowledgment_per_processed_message:
  "(Unmarshal env (Value m) = (None, payload) \<longrightarrow>
      StartConsumer env (ProcessNotification_email SendEmail ps') (Poll (Fetched m) # script) =
        (EvFetch m # EvProcess payload
           # map EvSend (fst (ProcessNotification_email SendEmail ps' payload))
           @ [EvAck \<lparr>ack_NotificationID = NotificationID payload,
                     ack_Status = (case snd (ProcessNotification_email SendEmail ps' payload) of
                                     None \<Rightarrow> StatusSuccess | Some err \<Rightarrow> StatusFailure),
                     ack_Details = (case snd (ProcessNotification_email SendEmail ps' payload) of
                                      None \<Rightarrow> ''Email sent successfully''
                                    | Some err \<Rightarrow> Error_email err),
                     ack_Timestamp = Now env\<rparr>,
              EvCommit m]
           @ fst (StartConsumer env (ProcessNotification_email SendEmail ps') script),
         snd (StartConsumer env (ProcessNotification_email SendEmail ps') script)))
   \<and> length (fst (ProcessNotification_email SendEmail ps' payload)) \<le> 1
   \<and> (snd (ProcessNotification_email SendEmail ps' payload) = None) =
       (\<exists>message. fst (ProcessNotification_email SendEmail ps' payload) = [message]
                   \<and> SendEmail message = None)
   \<and> (Unmarshal senv (Value m) = (None, spayload) \<and> CommitMessages senv m = None \<longrightarrow>
      consumeSMSTopic senv (Fetched m # sscript) =
        [EvFetch m, EvCommit m, EvProcess spayload,
         EvSend (cleanPhoneNumber (To spayload),
                 renderTemplate (TemplateBody spayload) (Params spayload)),
         EvAck \<lparr>ack_NotificationID = NotificationID spayload, ack_Status = StatusSuccess,
                ack_Details = ''SMS sent successfully'', ack_Timestamp = Now senv\<rparr>]
        @ consumeSMSTopic senv sscript)"
proof (intro conjI impI)
  let ?P = "ProcessNotification_email SendEmail ps'"
  show "StartConsumer env ?P (Poll (Fetched m) # script) =
        (EvFetch m # EvProcess payload # map EvSend (fst (?P payload))
           @ [EvAck \<lparr>ack_NotificationID = NotificationID payload,
                     ack_Status = (case snd (?P payload) of
                                     None \<Rightarrow> StatusSuccess | Some err \<Rightarrow> StatusFailure),
                     ack_Details = (case snd (?P payload) of
                                      None \<Rightarrow> ''Email sent successfully''
                                    | Some err \<Rightarrow> Error_email err),
                     ack_Timestamp = Now env\<rparr>,
              EvCommit m]
           @ fst (StartConsumer env ?P script),
         snd (StartConsumer env ?P script))"
    if "Unmarshal env (Value m) = (None, payload)"
    unfolding StartConsumer_step StartConsumer_iteration_decoded [OF that] by simp
  show "length (fst (?P payload)) \<le> 1"
    using ProcessNotification_email_calls by blast
  show "(snd (?P payload) = None) =
       (\<exists>message. fst (?P payload) = [message] \<and> SendEmail message = None)"
    using ProcessNotification_email_calls by blast
  show "consumeSMSTopic senv (Fetched m # sscript) =
        [EvFetch m, EvCommit m, EvProcess spayload,
         EvSend (cleanPhoneNumber (To spayload),
                 renderTemplate (TemplateBody spayload) (Params spayload)),
         EvAck \<lparr>ack_NotificationID = NotificationID spayload, ack_Status = StatusSuccess,
                ack_Details = ''SMS sent successfully'', ack_Timestamp = Now senv\<rparr>]
        @ consumeSMSTopic senv sscript"
    if "Unmarshal senv (Value m) = (None, spayload) \<and> CommitMessages senv m = None"
    using that consumeSMSTopic_iteration_decoded [of senv m spayload] by simp
qed

theorem one_acknowledgment_per_processed_message_witness:
  "Unmarshal sample_env (Value good_message) = (None, sample_email)
   \<and> StartConsumer sample_env (ProcessNotification_email failing_smtp (Params sample_email))
        [Poll (Fetched good_message), Poll (Fetched good_message)]
     = ([EvFetch good_message, EvProcess sample_email,
         EvSend \<lparr>em_To = ''user@example.com'', em_Subject = ''Welcome World'',
                 em_Body = ''Hello World!'',
                 em_Headers = [''X-Priority'' \<mapsto> ''2 (High)'', ''X-Notification-ID'' \<mapsto> ''n-1'']\<rparr>,
         EvAck \<lparr>ack_NotificationID = ''n-1'', ack_Status = StatusFailure,
                ack_Details = ''failed to send email: network error: connection refused'',
                ack_Timestamp = 1700000000\<rparr>,
         EvCommit good_message]
        @ fst (StartConsumer sample_env
                 (ProcessNotification_email failing_smtp (Params sample_email))
                 [Poll (Fetched good_message)]),
        Waiting)
   \<and> Unmarshal sample_sms_env (Value good_message) = (None, sample_sms)
   \<and> CommitMessages sample_sms_env good_message = None
   \<and> consumeSMSTopic sample_sms_env [Fetched good_message]
     = [EvFetch good_message, EvCommit good_message, EvProcess sample_sms,
        EvSend (''+1234567890'', ''Hello World!''),
        EvAck \<lparr>ack_NotificationID = ''n-2'', ack_Status = StatusSuccess,
               ack_Details = ''SMS sent successfully'', ack_Timestamp = 1700000000\<rparr>]"
proof -
  let ?P = "ProcessNotification_email failing_smtp (Params sample_email)"
  have u: "Unmarshal sample_env (Value good_message) = (None, sample_email)"
    by (simp add: sample_env_def good_message_def)
  have us: "Unmarshal sample_sms_env (Value good_message) = (None, sample_sms)"
           "CommitMessages sample_sms_env good_message = None"
    by (simp_all add: sample_sms_env_def sample_env_def good_message_def)
  have p: "?P sample_email =
      ([\<lparr>em_To = ''user@example.com'', em_Subject = ''Welcome World'',
          em_Body = ''Hello World!'',
          em_Headers = [''X-Priority'' \<mapsto> ''2 (High)'', ''X-Notification-ID'' \<mapsto> ''n-1'']\<rparr>],
       Some (Errorf ''failed to send email'' (ErrExternal ''network error: connection refused'')))"
    by (simp add: ProcessNotification_email_def BuildEmailMessage_def IsValid_email_def
          sample_email_def GetSubject_def RenderEmailTemplate_def RenderTemplate_def
          placeholder_def mapPriorityToHeader_def ValidateEmailMessage_def ValidateEmail_def
          emailRegex_def TrimSpace_def is_space_def is_local_char_def is_domain_char_def
          is_letter_def is_digit_def failing_smtp_def Let_def)
  have e: "StartConsumer sample_env ?P (Poll (Fetched good_message) # [Poll (Fetched good_message)])
      = (EvFetch good_message # EvProcess sample_email # map EvSend (fst (?P sample_email))
           @ [EvAck \<lparr>ack_NotificationID = NotificationID sample_email,
                     ack_Status = (case snd (?P sample_email) of
                                     None \<Rightarrow> StatusSuccess | Some err \<Rightarrow> StatusFailure),
                     ack_Details = (case snd (?P sample_email) of
                                      None \<Rightarrow> ''Email sent successfully''
                                    | Some err \<Rightarrow> Error_email err),
                     ack_Timestamp = Now sample_env\<rparr>,
              EvCommit good_message]
           @ fst (StartConsumer sample_env ?P [Poll (Fetched good_message)]),
         snd (StartConsumer sample_env ?P [Poll (Fetched good_message)]))"
    using one_acknowledgment_per_processed_message
            [of sample_env good_message sample_email failing_smtp "Params sample_email"
                "[Poll (Fetched good_message)]" sample_sms_env sample_sms "[]"] u
    by blast
  have s: "consumeSMSTopic sample_sms_env (Fetched good_message # [])
      = [EvFetch good_message, EvCommit good_message, EvProcess sample_sms,
         EvSend (cleanPhoneNumber (To sample_sms),
                 renderTemplate (TemplateBody sample_sms) (Params sample_sms)),
         EvAck \<lparr>ack_NotificationID = NotificationID sample_sms, ack_Status = StatusSuccess,
                ack_Details = ''SMS sent successfully'', ack_Timestamp = Now sample_sms_env\<rparr>]
        @ consumeSMSTopic sample_sms_env []"
    using one_acknowledgment_per_processed_message
            [of sample_env good_message sample_email failing_smtp "Params sample_email"
                "[Poll (Fetched good_message)]" sample_sms_env sample_sms "[]"] us
    by blast
  have w: "snd (StartConsumer sample_env ?P [Poll (Fetched good_message)]) = Waiting"
    by (simp add: split_def Let_def)
  have v: "NotificationID sample_email = ''n-1''" "Now sample_env = 1700000000"
          "NotificationID sample_sms = ''n-2''" "Now sample_sms_env = 1700000000"
          "cleanPhoneNumber (To sample_sms) = ''+1234567890''"
          "renderTemplate (TemplateBody sample_sms) (Params sample_sms) = ''Hello World!''"
    by (simp_all add: sample_email_def sample_env_def sample_sms_def sample_sms_env_def
          cleanPhoneNumber_def HasPrefix_def renderTemplate_def placeholder_def)
  show ?thesis unfolding e s w p v using u us by simp
qed

section \<open>Consumer loops: commit after the acknowledgment attempt\<close>

lemma ack_then_commit_sends:
  "ack_then_commit ph (map EvSend calls @ evs) = ack_then_commit ph evs"
  by (induction calls) simp_all

lemma ack_then_commit_iteration:
  "ack_then_commit Idle (StartConsumer_iteration env processor f @ evs)
     = ack_then_commit Idle evs"
proof (cases f)
  case (FetchFailed err)
  then show ?thesis by (simp add: StartConsumer_iteration_def FetchMessage_def)
next
  case (Fetched m)
  obtain uerr payload where u: "Unmarshal env (Value m) = (uerr, payload)"
    by (cases "Unmarshal env (Value m)")
  show ?thesis
  proof (cases uerr)
    case None
    show ?thesis
      unfolding Fetched StartConsumer_iteration_decoded [OF u [unfolded None]]
      by (simp add: ack_then_commit_sends)
  next
    case (Some err)
    show ?thesis
      unfolding Fetched StartConsumer_iteration_malformed [OF u [unfolded Some]]
      by simp
  qed
qed

lemma StartConsumer_writer_irrelevant:
  "fst (StartConsumer (env\<lparr>WriteMessages := w\<rparr>) processor script)
     = fst (StartConsumer env processor script)"
proof (induction script)
  case Nil
  show ?case by simp
next
  case (Cons p script)
  show ?case
  proof (cases p)
    case CtxDone
    then show ?thesis by simp
  next
    case (Poll f)
    have "StartConsumer_iteration (env\<lparr>WriteMessages := w\<rparr>) processor f
            = StartConsumer_iteration env processor f"
      by (cases f)
         (auto simp: StartConsumer_iteration_def FetchMessage_def processMessage_def
            SendAck_def Let_def split: prod.splits option.splits)
    then show ?thesis unfolding Poll StartConsumer_step using Cons.IH by simp
  qed
qed

text \<open>
  Claim C3, as stated: in every consumer loop the offset is committed only after the
  acknowledgment attempt. It fails for the SMS loop and for the chat service's
  \<open>Consumer.Start\<close>: they take the message with \<open>ReadMessage\<close>, which commits the offset
  before the message is decoded, processed or acknowledged.
\<close>

theorem read_commits_before_acknowledgment_counterexample:
  "consumeSMSTopic sample_sms_env [Fetched good_message]
     = [EvFetch good_message, EvCommit good_message, EvProcess sample_sms,
        EvSend (''+1234567890'', ''Hello World!''),
        EvAck \<lparr>ack_NotificationID = ''n-2'', ack_Status = StatusSuccess,
               ack_Details = ''SMS sent successfully'', ack_Timestamp = 1700000000\<rparr>]
   \<and> \<not> ack_then_commit Idle (consumeSMSTopic sample_sms_env [Fetched good_message])
   \<and> \<not> ack_then_commit Idle
          (fst (Start sample_chat_env (\<lambda>payload. ([] :: WhatsAppMessage list, None))
                  [Poll (Fetched good_message)]))"
  by (simp add: sample_sms_env_def sample_env_def sample_chat_env_def good_message_def
        consumeSMSTopic_iteration_def Start_iteration_def ReadMessage_def handleSMSPayload_def
        sendSMS_def produceAck_def sample_sms_def cleanPhoneNumber_def HasPrefix_def
        renderTemplate_def placeholder_def Let_def)

text \<open>
  Claim C3, amended. In every run of the email service's \<open>KafkaService\<close> loop, each fetched
  message is committed, and its commit comes after the acknowledgment write for it was
  attempted; the calls made do not depend on what the writer returns, so the commit happens
  whether the emission succeeded or failed.
\<close>

theorem email_commit_after_acknowledgment:
  "ack_then_commit Idle (fst (StartConsumer env processor script))
   \<and> fst (StartConsumer (env\<lparr>WriteMessages := w\<rparr>) processor script)
       = fst (StartConsumer env processor script)"
proof
  show "ack_then_commit Idle (fst (StartConsumer env processor script))"
  proof (induction script)
    case Nil
    show ?case by simp
  next
    case (Cons p script)
    show ?case
    proof (cases p)
      case CtxDone
      then show ?thesis by simp
    next
      case (Poll f)
      show ?thesis
        unfolding Poll StartConsumer_step fst_conv ack_then_commit_iteration
        by (rule Cons.IH)
    qed
  qed
  show "fst (StartConsumer (env\<lparr>WriteMessages := w\<rparr>) processor script)
       = fst (StartConsumer env processor script)"
    by (rule StartConsumer_writer_irrelevant)
qed

theorem email_commit_after_acknowledgment_witness:
  "ack_then_commit Idle
     (fst (StartConsumer failing_writer_env
             (ProcessNotification_email accepting_smtp (Params sample_email))
             [Poll (Fetched malformed_message), Poll (FetchFailed (ErrExternal ''timeout'')),
              Poll (Fetched good_message), CtxDone]))
   \<and> fst (StartConsumer failing_writer_env
             (ProcessNotification_email accepting_smtp (Params sample_email))
             [Poll (Fetched malformed_message), Poll (Fetched good_message)])
     = fst (StartConsumer sample_env
             (ProcessNotification_email accepting_smtp (Params sample_email))
             [Poll (Fetched malformed_message), Poll (Fetched good_message)])"
  using email_commit_after_acknowledgment
          [of failing_writer_env "ProcessNotification_email accepting_smtp (Params sample_email)"
              "[Poll (Fetched malformed_message), Poll (FetchFailed (ErrExternal ''timeout'')),
                Poll (Fetched good_message), CtxDone]"]
        email_commit_after_acknowledgment
          [of sample_env "ProcessNotification_email accepting_smtp (Params sample_email)"
              "[Poll (Fetched malformed_message), Poll (Fetched good_message)]"
              "\<lambda>ack. Some (ErrExternal ''broker unavailable'')"]
  by (simp only: failing_writer_env_def)

section \<open>Template rendering: the loop of replacements against one-pass substitution\<close>

lemma range_replace_Nil: "range_replace [] ps = []"
  by (induction ps) (auto simp: placeholder_def)


lemma RenderTemplate_range_replace: "RenderTemplate template ps = range_replace template ps"
  by (simp add: RenderTemplate_def range_replace_Nil)

lemma placeholder_Cons: "placeholder k = CHR ''{'' # (k @ [CHR ''}''])"
  by (simp add: placeholder_def)

lemma brace_free_set: "brace_free s \<Longrightarrow> CHR ''{'' \<notin> set s \<and> CHR ''}'' \<notin> set s"
  by (auto simp: brace_free_def list_all_iff)

lemma ReplaceAll_Cons_other:
  "c \<noteq> a \<Longrightarrow> ReplaceAll (c # cs) (a # old) new = c # ReplaceAll cs (a # old) new"
  by simp

lemma ReplaceAll_skip:
  "a \<notin> set z \<Longrightarrow> ReplaceAll (z @ s) (a # old) new = z @ ReplaceAll s (a # old) new"
  by (induction z) auto

lemma ReplaceAll_at_match:
  "old \<noteq> [] \<Longrightarrow> ReplaceAll (old @ rest) old new = new @ ReplaceAll rest old new"
  by (cases old) auto

lemma closing_brace_unique:
  assumes "CHR ''}'' \<notin> set k" "CHR ''}'' \<notin> set k'"
    and "k @ CHR ''}'' # xs = k' @ CHR ''}'' # ys"
  shows "k = k'"
proof -
  have "takeWhile (\<lambda>c. c \<noteq> CHR ''}'') (k @ CHR ''}'' # xs) = k"
    using assms(1) by (auto simp: takeWhile_tail)
  moreover have "takeWhile (\<lambda>c. c \<noteq> CHR ''}'') (k' @ CHR ''}'' # ys) = k'"
    using assms(2) by (auto simp: takeWhile_tail)
  ultimately show ?thesis using assms(3) by simp
qed

lemma prefix_placeholder:
  assumes "brace_free k" "brace_free k'"
  shows "prefix (placeholder k) (placeholder k' @ rest) = (k = k')"
proof
  assume "prefix (placeholder k) (placeholder k' @ rest)"
  then obtain zs where "placeholder k' @ rest = placeholder k @ zs"
    by (auto simp: prefix_def)
  then have "k' @ CHR ''}'' # rest = k @ CHR ''}'' # zs"
    by (simp add: placeholder_Cons)
  then show "k = k'"
    using closing_brace_unique [of k k' zs rest] assms brace_free_set by auto
next
  assume "k = k'"
  then show "prefix (placeholder k) (placeholder k' @ rest)" by simp
qed

lemma ReplaceAll_other_placeholder:
  assumes "brace_free k" "brace_free k'" "k' \<noteq> k"
  shows "ReplaceAll (placeholder k' @ rest) (placeholder k) v
           = placeholder k' @ ReplaceAll rest (placeholder k) v"
proof -
  let ?old = "k @ [CHR ''}'']"
  have np: "\<not> prefix (CHR ''{'' # ?old) (CHR ''{'' # (k' @ [CHR ''}'']) @ rest)"
    using prefix_placeholder [OF assms(1,2), of rest] assms(3)
    by (simp add: placeholder_Cons)
  have "ReplaceAll (placeholder k' @ rest) (placeholder k) v
          = CHR ''{'' # ReplaceAll (k' @ CHR ''}'' # rest) (CHR ''{'' # ?old) v"
    using np by (simp add: placeholder_Cons)
  also have "\<dots> = CHR ''{'' # k' @ ReplaceAll (CHR ''}'' # rest) (CHR ''{'' # ?old) v"
    using brace_free_set [OF assms(2)] by (simp add: ReplaceAll_skip)
  also have "\<dots> = CHR ''{'' # k' @ CHR ''}'' # ReplaceAll rest (CHR ''{'' # ?old) v"
    by simp
  finally show ?thesis by (simp add: placeholder_Cons)
qed

lemma flatten_Lits: "flatten (map Lit v) = v"
  by (induction v) (simp_all add: flatten_def)

lemma flatten_simps:
  "flatten [] = []"
  "flatten (t # ts) = text_of t @ flatten ts"
  "flatten (ts @ us) = flatten ts @ flatten us"
  by (simp_all add: flatten_def)

lemma ReplaceAll_flatten:
  assumes "list_all well_formed ts" "brace_free k"
  shows "ReplaceAll (flatten ts) (placeholder k) v = flatten (subst_key k v ts)"
  using assms(1)
proof (induction ts)
  case Nil
  show ?case by (simp add: flatten_simps placeholder_Cons)
next
  case (Cons t ts)
  then have ih: "ReplaceAll (flatten ts) (placeholder k) v = flatten (subst_key k v ts)"
    by simp
  show ?case
  proof (cases t)
    case (Lit c)
    with Cons.prems have "c \<noteq> CHR ''{''" by simp
    then show ?thesis
      using ih by (simp add: Lit flatten_simps placeholder_Cons)
  next
    case (Hole k')
    with Cons.prems have bf: "brace_free k'" by simp
    show ?thesis
    proof (cases "k' = k")
      case True
      have "ReplaceAll (placeholder k @ flatten ts) (placeholder k) v
              = v @ ReplaceAll (flatten ts) (placeholder k) v"
        by (rule ReplaceAll_at_match) (simp add: placeholder_Cons)
      then show ?thesis using ih by (simp add: Hole True flatten_simps flatten_Lits)
    next
      case False
      then show ?thesis
        using ih ReplaceAll_other_placeholder [OF assms(2) bf False, of "flatten ts" v]
        by (simp add: Hole flatten_simps)
    qed
  qed
qed

lemma well_formed_Lits: "brace_free v \<Longrightarrow> list_all well_formed (map Lit v)"
  by (induction v) (simp_all add: brace_free_def)

lemma well_formed_subst_key:
  "list_all well_formed ts \<Longrightarrow> brace_free v \<Longrightarrow> list_all well_formed (subst_key k v ts)"
  by (induction k v ts rule: subst_key.induct) (simp_all add: well_formed_Lits)

lemma spec_render_Lits: "spec_render P (map Lit v @ ts) = v @ spec_render P ts"
  by (induction v) simp_all

lemma spec_render_step:
  "spec_render (map_of ((k, v) # ps)) ts = spec_render (map_of ps) (subst_key k v ts)"
  by (induction k v ts rule: subst_key.induct) (simp_all add: spec_render_Lits)

lemma spec_render_empty: "spec_render Map.empty ts = flatten ts"
proof (induction ts)
  case Nil
  show ?case by (simp add: flatten_simps)
next
  case (Cons t ts)
  then show ?case by (cases t) (simp_all add: flatten_simps)
qed

lemma range_replace_flatten:
  assumes "list_all well_formed ts"
    and "list_all (\<lambda>(k, v). brace_free k \<and> brace_free v) ps"
  shows "range_replace (flatten ts) ps = spec_render (map_of ps) ts"
  using assms
proof (induction ps arbitrary: ts)
  case Nil
  show ?case by (simp add: spec_render_empty)
next
  case (Cons p ps)
  obtain k v where p: "p = (k, v)" by (cases p)
  from Cons.prems have bf: "brace_free k" "brace_free v"
    and rest: "list_all (\<lambda>(k, v). brace_free k \<and> brace_free v) ps"
    by (simp_all add: p)
  have "range_replace (flatten ts) (p # ps)
          = range_replace (flatten (subst_key k v ts)) ps"
    by (simp add: p ReplaceAll_flatten [OF Cons.prems(1) bf(1)])
  also have "\<dots> = spec_render (map_of ps) (subst_key k v ts)"
    by (rule Cons.IH [OF well_formed_subst_key [OF Cons.prems(1) bf(2)] rest])
  finally show ?case unfolding p spec_render_step .
qed
text \<open>
  Claim C4, as stated: for every template and every parameter map, the output is the
  template with each placeholder of a key of the map replaced by the key's value and every
  other placeholder left as it is. It fails when the map is visited in the order \<open>a\<close>, \<open>b\<close>
  and the value of \<open>a\<close> is the placeholder of \<open>b\<close>: the value put in for \<open>{a}\<close> is replaced in
  turn (visited in the order \<open>b\<close>, \<open>a\<close>, the same map gives another output, in which \<open>{b}\<close>
  stands although \<open>b\<close> is a key). It also fails for a key that contains braces and for a
  template with nested braces.
\<close>

theorem render_every_template_counterexample:
  "RenderTemplate (flatten [Hole ''a'']) [(''a'', ''{b}''), (''b'', ''x'')] = ''x''
   \<and> spec_render (map_of [(''a'', ''{b}''), (''b'', ''x'')]) [Hole ''a''] = ''{b}''
   \<and> RenderTemplate (flatten [Hole ''a'']) [(''b'', ''x''), (''a'', ''{b}'')] = ''{b}''
   \<and> RenderTemplate ''{b}{c}'' [(''b}{c'', ''x'')] = ''x''
   \<and> RenderTemplate ''{{a}}'' [(''a'', ''b''), (''b'', ''c'')] = ''c''"
  by (simp add: RenderTemplate_def flatten_def placeholder_def)

text \<open>
  Claim C4, amended. An empty template renders to the empty string and an empty parameter
  map leaves the template unchanged, for every input. For a well-formed template (literal
  characters other than braces, and placeholders whose keys contain no brace) and a
  parameter map whose keys and values contain no brace, the output is, whatever the order
  in which the map is visited, the template with every placeholder of a key of the map
  replaced by the key's value and every other placeholder left as it is. The SMS service's
  \<open>renderTemplate\<close> computes the same function.
\<close>

theorem render_replaces_placeholders:
  "RenderTemplate [] ps = [] \<and> renderTemplate [] ps = []
   \<and> RenderTemplate template [] = template \<and> renderTemplate template [] = template
   \<and> renderTemplate template ps = RenderTemplate template ps
   \<and> (list_all well_formed ts \<and> list_all (\<lambda>(k, v). brace_free k \<and> brace_free v) ps \<longrightarrow>
        RenderTemplate (flatten ts) ps = spec_render (map_of ps) ts)"
proof (intro conjI impI)
  show "RenderTemplate (flatten ts) ps = spec_render (map_of ps) ts"
    if "list_all well_formed ts \<and> list_all (\<lambda>(k, v). brace_free k \<and> brace_free v) ps"
    using that range_replace_flatten [of ts ps] by (simp add: RenderTemplate_range_replace)
qed (simp_all add: RenderTemplate_range_replace renderTemplate_def range_replace_Nil)

theorem render_replaces_placeholders_witness:
  "list_all well_formed [Hole ''a'', Hole ''b'', Lit CHR ''!'']
   \<and> list_all (\<lambda>(k, v). brace_free k \<and> brace_free v) [(''a'', ''1'')]
   \<and> flatten [Hole ''a'', Hole ''b'', Lit CHR ''!''] = ''{a}{b}!''
   \<and> RenderTemplate ''{a}{b}!'' [(''a'', ''1'')] = ''1{b}!''
   \<and> spec_render (map_of [(''a'', ''1'')]) [Hole ''a'', Hole ''b'', Lit CHR ''!''] = ''1{b}!''"
  using render_replaces_placeholders
          [of "[(''a'', ''1'')]" "[]" "[Hole ''a'', Hole ''b'', Lit CHR ''!'']"]
  by (simp add: flatten_def placeholder_def brace_free_def)

section \<open>Template rendering: values are scanned by later passes\<close>










end
